theory Spec2Isabelle
  imports Main "HOL-Library.Code_Target_Nat"
begin

section \<open>JavaScript strings as the program uses them\<close>

text \<open>
  A JavaScript string is modelled as a \<open>string\<close> holding its UTF-8 bytes. The
  string operations the program calls (\<open>split\<close>, \<open>trim\<close>, \<open>indexOf\<close>,
  \<open>substring\<close>, \<open>encodeURIComponent\<close>, \<open>decodeURIComponent\<close>) are written
  out here over that representation; each says which built-in it stands for.
\<close>

datatype error = ReferenceError | TypeError | URIError

definition code :: "char \<Rightarrow> nat" where
  "code c = of_char c"

definition in_range :: "nat \<Rightarrow> nat \<Rightarrow> nat \<Rightarrow> bool" where
  "in_range lo hi b = (lo \<le> b \<and> b \<le> hi)"

text \<open>\<open>s.split(sep)\<close> for a one-character separator: never returns the empty list.\<close>

fun split :: "char \<Rightarrow> string \<Rightarrow> string list" where
  "split sep [] = [[]]"
| "split sep (c # cs) =
     (if c = sep then [] # split sep cs
      else (case split sep cs of
              [] \<Rightarrow> [[c]]
            | p # ps \<Rightarrow> (c # p) # ps))"

text \<open>
  \<open>s.indexOf(name) === 0\<close>: \<open>name\<close> occurs at position 0 of \<open>s\<close>.
  \<open>s.substring(n, s.length)\<close> for \<open>n \<le> s.length\<close> is what follows the first
  \<open>n\<close> characters.
\<close>

definition indexOf_is_0 :: "string \<Rightarrow> string \<Rightarrow> bool" where
  "indexOf_is_0 s name = (take (length name) s = name)"

definition substring_from :: "string \<Rightarrow> nat \<Rightarrow> string" where
  "substring_from s n = drop n s"

text \<open>
  \<open>s.trim()\<close> removes white space and line terminators at both ends:
  TAB, LF, VT, FF, CR, SP, U+00A0, U+1680, U+2000..U+200A, U+2028, U+2029,
  U+202F, U+205F, U+3000 and U+FEFF, here in their UTF-8 form.
  \<open>ws_len\<close> is the byte length of such a character at the head of the list
  (0 when there is none); \<open>ws1\<close>, \<open>ws2\<close> and \<open>ws3\<close> are the one-, two- and
  three-byte ones.
\<close>

definition ws1 :: "nat \<Rightarrow> bool" where
  "ws1 a = (a = 32 \<or> in_range 9 13 a)"

definition ws2 :: "nat \<Rightarrow> nat \<Rightarrow> bool" where
  "ws2 a b = (a = 194 \<and> b = 160)"

definition ws3 :: "nat \<Rightarrow> nat \<Rightarrow> nat \<Rightarrow> bool" where
  "ws3 a b c =
     (a = 225 \<and> b = 154 \<and> c = 128 \<or>
      a = 226 \<and> b = 128 \<and> (in_range 128 138 c \<or> c = 168 \<or> c = 169 \<or> c = 175) \<or>
      a = 226 \<and> b = 129 \<and> c = 159 \<or>
      a = 227 \<and> b = 128 \<and> c = 128 \<or>
      a = 239 \<and> b = 187 \<and> c = 191)"

fun ws_len :: "nat list \<Rightarrow> nat" where
  "ws_len (a # b # c # _) = (if ws1 a then 1 else if ws2 a b then 2 else if ws3 a b c then 3 else 0)"
| "ws_len [a, b] = (if ws1 a then 1 else if ws2 a b then 2 else 0)"
| "ws_len [a] = (if ws1 a then 1 else 0)"
| "ws_len [] = 0"

text \<open>The same test at the end of a string, on its last bytes read backwards.\<close>

fun ws_len_rev :: "nat list \<Rightarrow> nat" where
  "ws_len_rev (c # b # a # _) = (if ws1 c then 1 else if ws2 b c then 2 else if ws3 a b c then 3 else 0)"
| "ws_len_rev [c, b] = (if ws1 c then 1 else if ws2 b c then 2 else 0)"
| "ws_len_rev [c] = (if ws1 c then 1 else 0)"
| "ws_len_rev [] = 0"

function trimStart :: "string \<Rightarrow> string" where
  "trimStart s =
     (let n = ws_len (map code (take 3 s))
      in if n = 0 \<or> s = [] then s else trimStart (drop n s))"
  by pat_completeness auto
termination
  by (relation "measure length") auto

function trimEnd_rev :: "string \<Rightarrow> string" where
  "trimEnd_rev s =
     (let n = ws_len_rev (map code (take 3 s))
      in if n = 0 \<or> s = [] then s else trimEnd_rev (drop n s))"
  by pat_completeness auto
termination
  by (relation "measure length") auto

definition trimEnd :: "string \<Rightarrow> string" where
  "trimEnd s = rev (trimEnd_rev (rev s))"

definition trim :: "string \<Rightarrow> string" where
  "trim s = trimEnd (trimStart s)"

subsection \<open>Percent-encoding\<close>

text \<open>
  \<open>encodeURIComponent\<close> keeps the unreserved characters
  \<open>A-Z a-z 0-9 - _ . ! ~ * ' ( )\<close> and writes every other byte of the UTF-8
  form as \<open>%XX\<close> with upper-case hexadecimal digits.
\<close>

definition is_digit :: "char \<Rightarrow> bool" where
  "is_digit c = in_range 48 57 (code c)"

definition is_alpha :: "char \<Rightarrow> bool" where
  "is_alpha c = (in_range 65 90 (code c) \<or> in_range 97 122 (code c))"

definition unreserved :: "char \<Rightarrow> bool" where
  "unreserved c = (is_alpha c \<or> is_digit c \<or> c \<in> set ''-_.!~*'' \<or> code c = 39 \<or> c \<in> set ''()'')"

definition hex_digit :: "nat \<Rightarrow> char" where
  "hex_digit n = (if n < 10 then char_of (48 + n) else char_of (55 + n))"

definition escape :: "nat \<Rightarrow> string" where
  "escape b = [CHR ''%'', hex_digit (b div 16), hex_digit (b mod 16)]"

definition encodeURIComponent :: "string \<Rightarrow> string" where
  "encodeURIComponent s = concat (map (\<lambda>c. if unreserved c then [c] else escape (code c)) s)"

text \<open>
  \<open>decodeURIComponent\<close> replaces every escape by the byte it names and raises
  URIError on a \<open>%\<close> that is not followed by two hexadecimal digits. An escaped
  byte of 128 or more must start a run of escapes that spell one well-formed
  UTF-8 sequence; anything else raises URIError as well.
\<close>

definition hex_val :: "char \<Rightarrow> nat option" where
  "hex_val c =
     (let n = code c
      in if in_range 48 57 n then Some (n - 48)
         else if in_range 65 70 n then Some (n - 55)
         else if in_range 97 102 n then Some (n - 87)
         else None)"

fun read_escape :: "string \<Rightarrow> (nat \<times> string) option" where
  "read_escape (p # a # b # rest) =
     (if p = CHR ''%'' then
        (case hex_val a of
           None \<Rightarrow> None
         | Some x \<Rightarrow> (case hex_val b of None \<Rightarrow> None | Some y \<Rightarrow> Some (16 * x + y, rest)))
      else None)"
| "read_escape _ = None"

fun read_escapes :: "nat \<Rightarrow> string \<Rightarrow> (nat list \<times> string) option" where
  "read_escapes 0 s = Some ([], s)"
| "read_escapes (Suc k) s =
     (case read_escape s of
        None \<Rightarrow> None
      | Some (b, r) \<Rightarrow>
          (case read_escapes k r of
             None \<Rightarrow> None
           | Some (bs, r') \<Rightarrow> Some (b # bs, r')))"

text \<open>The number of bytes a UTF-8 sequence has, from its first byte (0: not a first byte).\<close>

definition utf8_length :: "nat \<Rightarrow> nat" where
  "utf8_length b =
     (if b < 128 then 1
      else if in_range 192 223 b then 2
      else if in_range 224 239 b then 3
      else if in_range 240 247 b then 4
      else 0)"

text \<open>One well-formed UTF-8 sequence of two to four bytes (no overlong form, no surrogate,
  nothing above U+10FFFF).\<close>

fun utf8_sequence :: "nat list \<Rightarrow> bool" where
  "utf8_sequence [a, b] = (in_range 194 223 a \<and> in_range 128 191 b)"
| "utf8_sequence [a, b, c] =
     (in_range 128 191 c \<and>
      (a = 224 \<and> in_range 160 191 b \<or>
       in_range 225 236 a \<and> in_range 128 191 b \<or>
       a = 237 \<and> in_range 128 159 b \<or>
       in_range 238 239 a \<and> in_range 128 191 b))"
| "utf8_sequence [a, b, c, d] =
     (in_range 128 191 c \<and> in_range 128 191 d \<and>
      (a = 240 \<and> in_range 144 191 b \<or>
       in_range 241 243 a \<and> in_range 128 191 b \<or>
       a = 244 \<and> in_range 128 143 b))"
| "utf8_sequence _ = False"

text \<open>One step of the decoder: the bytes it produces and the rest of the input.\<close>

fun decode_unit :: "string \<Rightarrow> error + (string \<times> string)" where
  "decode_unit [] = Inr ([], [])"
| "decode_unit (c # cs) =
     (if c \<noteq> CHR ''%'' then Inr ([c], cs)
      else (case read_escape (c # cs) of
          None \<Rightarrow> Inl URIError
        | Some (b, r) \<Rightarrow>
            if b < 128 then Inr ([char_of b], r)
            else if utf8_length b < 2 then Inl URIError
            else (case read_escapes (utf8_length b - 1) r of
                None \<Rightarrow> Inl URIError
              | Some (bs, r') \<Rightarrow>
                  if utf8_sequence (b # bs) then Inr (map char_of (b # bs), r')
                  else Inl URIError)))"

lemma read_escape_shorter: "read_escape s = Some (b, r) \<Longrightarrow> length r < length s"
  by (induction s rule: read_escape.induct) (auto split: if_splits option.splits)

lemma read_escapes_shorter: "read_escapes k s = Some (bs, r) \<Longrightarrow> length r \<le> length s"
proof (induction k arbitrary: s bs)
  case 0
  then show ?case by simp
next
  case (Suc k)
  then show ?case
    by (fastforce split: option.splits dest: read_escape_shorter)
qed

lemma decode_unit_shorter: "decode_unit (c # cs) = Inr (u, r) \<Longrightarrow> length r < length (c # cs)"
  by (auto split: if_splits option.splits dest!: read_escape_shorter read_escapes_shorter)

function decodeURIComponent :: "string \<Rightarrow> error + string" where
  "decodeURIComponent [] = Inr []"
| "decodeURIComponent (c # cs) =
     (case decode_unit (c # cs) of
        Inl e \<Rightarrow> Inl e
      | Inr (u, r) \<Rightarrow>
          (case decodeURIComponent r of
             Inl e \<Rightarrow> Inl e
           | Inr t \<Rightarrow> Inr (u @ t)))"
  by pat_completeness auto
termination
  by (relation "measure length") (auto dest: decode_unit_shorter simp del: decode_unit.simps)


subsection \<open>Dates\<close>

text \<open>
  A \<open>Date\<close> is its time value: milliseconds since 1 January 1970 UTC.
  \<open>toUTCString\<close> renders it as \<open>Thu, 01 Jan 1970 00:00:00 GMT\<close> (for the
  years 0 to 9999). The calendar is the proleptic Gregorian one.
\<close>

definition civil_from_days :: "int \<Rightarrow> int \<times> int \<times> int" where
  "civil_from_days z =
     (let z' = z + 719468;
          era = z' div 146097;
          doe = z' mod 146097;
          yoe = (doe - doe div 1460 + doe div 36524 - doe div 146096) div 365;
          doy = doe - (365 * yoe + yoe div 4 - yoe div 100);
          mp = (5 * doy + 2) div 153;
          d = doy - (153 * mp + 2) div 5 + 1;
          m = (if mp < 10 then mp + 3 else mp - 9);
          y = yoe + era * 400
      in (if m \<le> 2 then y + 1 else y, m, d))"

definition days_from_civil :: "int \<Rightarrow> int \<Rightarrow> int \<Rightarrow> int" where
  "days_from_civil y m d =
     (let y' = (if m \<le> 2 then y - 1 else y);
          era = y' div 400;
          yoe = y' mod 400;
          doy = (153 * (if m > 2 then m - 3 else m + 9) + 2) div 5 + d - 1;
          doe = yoe * 365 + yoe div 4 - yoe div 100 + doy
      in era * 146097 + doe - 719468)"

definition digit_char :: "int \<Rightarrow> char" where
  "digit_char n = char_of (48 + nat (n mod 10))"

definition pad2 :: "int \<Rightarrow> string" where
  "pad2 n = [digit_char (n div 10), digit_char n]"

definition pad4 :: "int \<Rightarrow> string" where
  "pad4 n = [digit_char (n div 1000), digit_char (n div 100), digit_char (n div 10), digit_char n]"

definition day_names :: "string list" where
  "day_names = [''Sun'', ''Mon'', ''Tue'', ''Wed'', ''Thu'', ''Fri'', ''Sat'']"

definition month_names :: "string list" where
  "month_names = [''Jan'', ''Feb'', ''Mar'', ''Apr'', ''May'', ''Jun'',
                  ''Jul'', ''Aug'', ''Sep'', ''Oct'', ''Nov'', ''Dec'']"

definition toUTCString :: "int \<Rightarrow> string" where
  "toUTCString t =
     (let days = t div 86400000;
          secs = (t mod 86400000) div 1000;
          (y, m, d) = civil_from_days days
      in day_names ! nat ((days + 4) mod 7) @ '', '' @ pad2 d @ '' '' @
         month_names ! nat (m - 1) @ '' '' @ pad4 y @ '' '' @
         pad2 (secs div 3600) @ '':'' @ pad2 (secs div 60 mod 60) @ '':'' @ pad2 (secs mod 60) @
         '' GMT'')"

section \<open>The browser's cookie store\<close>

text \<open>
  \<open>document.cookie\<close> is the browser's, not the program's. Assigning a string to it
  stores one cookie, parsed from the string as RFC 6265 (sections 5.1.1, 5.2 and 5.3)
  prescribes; reading it gives the live cookies as \<open>name=value\<close> pairs joined by
  \<open>"; "\<close>. The store below is the one a page at the root of the origin sees:
  cookies are kept in creation order and identified by name. The attributes
  \<open>Expires\<close> and \<open>Max-Age\<close> are interpreted, and a name or value with a control
  character in it is refused. \<open>Path\<close>, \<open>Domain\<close>, \<open>Secure\<close>,
  \<open>HttpOnly\<close> and \<open>SameSite\<close> are read and not interpreted: \<open>path=/\<close>, the only
  one of them the program writes, makes the cookie visible to every page of the
  origin.
\<close>

record cookie =
  cookie_name :: string
  cookie_value :: string
  expiry_time :: "int option"

definition is_delimiter :: "char \<Rightarrow> bool" where
  "is_delimiter c =
     (let n = code c
      in n = 9 \<or> in_range 32 47 n \<or> in_range 59 64 n \<or> in_range 91 96 n \<or> in_range 123 126 n)"

fun date_tokens :: "string \<Rightarrow> string \<Rightarrow> string list" where
  "date_tokens cur [] = (if cur = [] then [] else [rev cur])"
| "date_tokens cur (c # cs) =
     (if is_delimiter c then (if cur = [] then [] else [rev cur]) @ date_tokens [] cs
      else date_tokens (c # cur) cs)"

definition number_of :: "string \<Rightarrow> int" where
  "number_of ds = foldl (\<lambda>n c. 10 * n + (int (code c) - 48)) 0 ds"

text \<open>The digits a token starts with, as a number, when there are between \<open>lo\<close> and
  \<open>hi\<close> of them.\<close>

definition leading_number :: "nat \<Rightarrow> nat \<Rightarrow> string \<Rightarrow> int option" where
  "leading_number lo hi tok =
     (let ds = takeWhile is_digit tok
      in if lo \<le> length ds \<and> length ds \<le> hi then Some (number_of ds) else None)"

definition all_digits :: "string \<Rightarrow> int option" where
  "all_digits tok = (if list_all is_digit tok then leading_number 1 2 tok else None)"

definition time_of_token :: "string \<Rightarrow> (int \<times> int \<times> int) option" where
  "time_of_token tok =
     (case split CHR '':'' tok of
        h # m # s # _ \<Rightarrow>
          (case (all_digits h, all_digits m, leading_number 1 2 s) of
             (Some hh, Some mm, Some ss) \<Rightarrow> Some (hh, mm, ss)
           | _ \<Rightarrow> None)
      | _ \<Rightarrow> None)"

definition lower :: "char \<Rightarrow> char" where
  "lower c = (if in_range 65 90 (code c) then char_of (code c + 32) else c)"

fun index_of :: "'a \<Rightarrow> 'a list \<Rightarrow> nat option" where
  "index_of x [] = None"
| "index_of x (y # ys) = (if x = y then Some 0 else map_option Suc (index_of x ys))"

definition month_of_token :: "string \<Rightarrow> int option" where
  "month_of_token tok =
     (if length tok < 3 then None
      else map_option (\<lambda>i. int i + 1)
             (index_of (map lower (take 3 tok)) (map (map lower) month_names)))"

record date_fields =
  found_time :: "(int \<times> int \<times> int) option"
  found_day :: "int option"
  found_month :: "int option"
  found_year :: "int option"

definition date_step :: "date_fields \<Rightarrow> string \<Rightarrow> date_fields" where
  "date_step f tok =
     (if found_time f = None \<and> time_of_token tok \<noteq> None
        then f\<lparr>found_time := time_of_token tok\<rparr>
      else if found_day f = None \<and> leading_number 1 2 tok \<noteq> None
        then f\<lparr>found_day := leading_number 1 2 tok\<rparr>
      else if found_month f = None \<and> month_of_token tok \<noteq> None
        then f\<lparr>found_month := month_of_token tok\<rparr>
      else if found_year f = None \<and> leading_number 2 4 tok \<noteq> None
        then f\<lparr>found_year := leading_number 2 4 tok\<rparr>
      else f)"

definition parse_cookie_date :: "string \<Rightarrow> int option" where
  "parse_cookie_date s =
     (let f = foldl date_step
                \<lparr>found_time = None, found_day = None, found_month = None, found_year = None\<rparr>
                (date_tokens [] s)
      in case (found_time f, found_day f, found_month f, found_year f) of
           (Some (hh, mm, ss), Some d, Some m, Some y0) \<Rightarrow>
             (let y = (if 70 \<le> y0 \<and> y0 \<le> 99 then y0 + 1900
                       else if 0 \<le> y0 \<and> y0 \<le> 69 then y0 + 2000 else y0)
              in if d < 1 \<or> 31 < d \<or> y < 1601 \<or> 23 < hh \<or> 59 < mm \<or> 59 < ss then None
                 else if civil_from_days (days_from_civil y m d) \<noteq> (y, m, d) then None
                 else Some (((days_from_civil y m d * 24 + hh) * 60 + mm) * 60000 + ss * 1000))
         | _ \<Rightarrow> None)"

text \<open>Leading and trailing spaces and tabs are dropped from names and values.\<close>

definition is_wsp :: "char \<Rightarrow> bool" where
  "is_wsp c = (c = CHR '' '' \<or> code c = 9)"

definition strip_wsp :: "string \<Rightarrow> string" where
  "strip_wsp s = rev (dropWhile is_wsp (rev (dropWhile is_wsp s)))"

text \<open>A string cut at its first \<open>=\<close>, when it has one.\<close>

fun cut_at_eq :: "string \<Rightarrow> (string \<times> string) option" where
  "cut_at_eq [] = None"
| "cut_at_eq (c # cs) =
     (if c = CHR ''='' then Some ([], cs)
      else map_option (\<lambda>(n, v). (c # n, v)) (cut_at_eq cs))"

text \<open>The expiry an attribute gives; an attribute that is not a readable \<open>Expires\<close>
  leaves the one found so far.\<close>

definition expires_attribute :: "int option \<Rightarrow> string \<Rightarrow> int option" where
  "expires_attribute sofar attr =
     (let (n, v) = (case cut_at_eq attr of None \<Rightarrow> (attr, []) | Some nv \<Rightarrow> nv)
      in if map lower (strip_wsp n) = ''expires'' then
           (case parse_cookie_date (strip_wsp v) of None \<Rightarrow> sofar | Some t \<Rightarrow> Some t)
         else sofar)"

text \<open>
  \<open>Max-Age\<close> is an optional \<open>-\<close> and digits, in seconds from now; zero or less
  expires the cookie at once. It takes precedence over \<open>Expires\<close>.
\<close>

definition max_age_attribute :: "int \<Rightarrow> int option \<Rightarrow> string \<Rightarrow> int option" where
  "max_age_attribute now sofar attr =
     (let (n, v) = (case cut_at_eq attr of None \<Rightarrow> (attr, []) | Some nv \<Rightarrow> nv)
      in if map lower (strip_wsp n) = ''max-age'' then
           (case strip_wsp v of
              [] \<Rightarrow> sofar
            | c # ds \<Rightarrow>
                if c = CHR ''-'' \<and> ds \<noteq> [] \<and> list_all is_digit ds then Some (now - 1)
                else if list_all is_digit (c # ds) then
                  (if number_of (c # ds) = 0 then Some (now - 1)
                   else Some (now + number_of (c # ds) * 1000))
                else sofar)
         else sofar)"

definition cookie_expiry :: "int \<Rightarrow> string list \<Rightarrow> int option" where
  "cookie_expiry now attrs =
     (case foldl (max_age_attribute now) None attrs of
        Some t \<Rightarrow> Some t
      | None \<Rightarrow> foldl expires_attribute None attrs)"

definition is_control :: "char \<Rightarrow> bool" where
  "is_control c = (code c \<le> 31 \<or> code c = 127)"

definition live :: "int \<Rightarrow> cookie \<Rightarrow> bool" where
  "live now c = (case expiry_time c of None \<Rightarrow> True | Some t \<Rightarrow> now \<le> t)"

fun put_cookie :: "cookie \<Rightarrow> cookie list \<Rightarrow> cookie list" where
  "put_cookie c [] = [c]"
| "put_cookie c (x # xs) =
     (if cookie_name x = cookie_name c then c # xs else x # put_cookie c xs)"

definition store_cookie :: "int \<Rightarrow> string \<Rightarrow> cookie list \<Rightarrow> cookie list" where
  "store_cookie now s jar =
     (case split CHR '';'' s of
        [] \<Rightarrow> jar
      | pair # attrs \<Rightarrow>
          (case cut_at_eq pair of
             None \<Rightarrow> jar
           | Some (n, v) \<Rightarrow>
               if strip_wsp n = [] then jar
               else if list_ex is_control (strip_wsp n) \<or> list_ex is_control (strip_wsp v) then jar
               else filter (live now)
                      (put_cookie
                         \<lparr>cookie_name = strip_wsp n, cookie_value = strip_wsp v,
                          expiry_time = cookie_expiry now attrs\<rparr>
                         jar)))"

fun join :: "string \<Rightarrow> string list \<Rightarrow> string" where
  "join sep [] = []"
| "join sep [x] = x"
| "join sep (x # y # ys) = x @ sep @ join sep (y # ys)"

definition cookie_string :: "int \<Rightarrow> cookie list \<Rightarrow> string" where
  "cookie_string now jar =
     join ''; '' (map (\<lambda>c. cookie_name c @ ''='' @ cookie_value c) (filter (live now) jar))"


section \<open>Message data\<close>

text \<open>
  The \<open>data\<close> of a message event is any structured-clonable value: a primitive or an
  object (arrays and other built-in objects are objects too; what matters to the
  program is their own properties).
\<close>

datatype jsval =
    JUndefined
  | JNull
  | JBool bool
  | JNum int
  | JNaN
  | JStr string
  | JObj "(string \<times> jsval) list"

fun truthy :: "jsval \<Rightarrow> bool" where
  "truthy JUndefined = False"
| "truthy JNull = False"
| "truthy (JBool b) = b"
| "truthy (JNum n) = (n \<noteq> 0)"
| "truthy JNaN = False"
| "truthy (JStr s) = (s \<noteq> [])"
| "truthy (JObj ps) = True"

fun typeof :: "jsval \<Rightarrow> string" where
  "typeof JUndefined = ''undefined''"
| "typeof JNull = ''object''"
| "typeof (JBool b) = ''boolean''"
| "typeof (JNum n) = ''number''"
| "typeof JNaN = ''number''"
| "typeof (JStr s) = ''string''"
| "typeof (JObj ps) = ''object''"

text \<open>\<open>v.p\<close>: TypeError on \<open>undefined\<close> and \<open>null\<close>, \<open>undefined\<close> for a property
  the value does not have.\<close>

fun member :: "jsval \<Rightarrow> string \<Rightarrow> error + jsval" where
  "member JUndefined p = Inl TypeError"
| "member JNull p = Inl TypeError"
| "member (JObj ps) p = Inr (case map_of ps p of None \<Rightarrow> JUndefined | Some v \<Rightarrow> v)"
| "member v p = Inr JUndefined"

record message_event =
  origin :: string
  data :: jsval

section \<open>The page\<close>

text \<open>
  Everything the program reads or changes is one record: the platform the code runs
  on, the globals of a browsing context (absent on the server), the clock, what the
  program has handed to the browser (timers, alerts, posted messages, listeners), and
  the fields of the \<open>App\<close> component.

  The component gets its \<open>EnvironmentService\<close> by injection. The repository has two
  versions of the class, one that tests \<open>isPlatformBrowser\<close> before it touches
  \<open>document\<close> and one that does not; the field \<open>environmentService\<close> says which one
  was provided.
\<close>

datatype platform = PlatformBrowser | PlatformServer

datatype frame = Patient | Staff

datatype callback = SendToken frame

datatype service = Guarded | Unguarded

datatype SafeResourceUrl = SafeResourceUrl string

record iframe =
  selector :: string
  contentWindow :: bool

record document =
  cookies :: "cookie list"
  iframes :: "iframe list"

record posted_message =
  target :: string
  message :: jsval
  targetOrigin :: string

record world =
  platformId :: platform
  document :: "document option"
  clock :: int
  timers :: "(callback \<times> nat) list"
  alerts :: "string list"
  posted :: "posted_message list"
  message_listeners :: nat
  environmentService :: service
  token :: string
  showPatientIframe :: bool
  showStaffIframe :: bool
  patientIframeUrl :: "SafeResourceUrl option"
  staffIframeUrl :: "SafeResourceUrl option"
  patientUrl :: string
  staffUrl :: string

text \<open>A call either returns or throws; either way it leaves a world behind.\<close>

datatype outcome = Returns world | Throws error world

fun and_then :: "outcome \<Rightarrow> (world \<Rightarrow> outcome) \<Rightarrow> outcome" where
  "and_then (Returns w) f = f w"
| "and_then (Throws e w) f = Throws e w"

definition isPlatformBrowser :: "platform \<Rightarrow> bool" where
  "isPlatformBrowser p = (p = PlatformBrowser)"

text \<open>Reading and assigning \<open>document.cookie\<close>; where there is no \<open>document\<close> the
  name does not resolve.\<close>

definition read_document_cookie :: "world \<Rightarrow> error + string" where
  "read_document_cookie w =
     (case document w of
        None \<Rightarrow> Inl ReferenceError
      | Some d \<Rightarrow> Inr (cookie_string (clock w) (cookies d)))"

definition assign_document_cookie :: "string \<Rightarrow> world \<Rightarrow> outcome" where
  "assign_document_cookie s w =
     (case document w of
        None \<Rightarrow> Throws ReferenceError w
      | Some d \<Rightarrow> Returns (w\<lparr>document := Some (d\<lparr>cookies := store_cookie (clock w) s (cookies d)\<rparr>)\<rparr>))"

text \<open>\<open>document.querySelector(className)\<close>: the first matching element, or null.\<close>

definition querySelector :: "string \<Rightarrow> world \<Rightarrow> error + iframe option" where
  "querySelector className w =
     (case document w of
        None \<Rightarrow> Inl ReferenceError
      | Some d \<Rightarrow> Inr (find (\<lambda>el. selector el = className) (iframes d)))"

text \<open>
  \<open>console.log\<close> writes to the developer console, which the program never reads:
  it leaves the world as it is. So do
  \<open>ChangeDetectorRef.detectChanges\<close>, which redraws the view from the fields, and
  \<open>NgZone.run\<close>, which runs its argument. \<open>alert\<close> is a global of the browsing
  context, like \<open>document\<close>: where there is none the name does not resolve.
\<close>

definition console_log :: "string \<Rightarrow> world \<Rightarrow> world" where
  "console_log line w = w"

definition detectChanges :: "world \<Rightarrow> world" where
  "detectChanges w = w"

definition ngZone_run :: "(world \<Rightarrow> world) \<Rightarrow> world \<Rightarrow> world" where
  "ngZone_run f w = f w"

definition alert :: "string \<Rightarrow> world \<Rightarrow> outcome" where
  "alert text w =
     (if document w = None then Throws ReferenceError w
      else Returns (w\<lparr>alerts := alerts w @ [text]\<rparr>))"

definition setTimeout :: "callback \<Rightarrow> nat \<Rightarrow> world \<Rightarrow> world" where
  "setTimeout cb ms w = w\<lparr>timers := timers w @ [(cb, ms)]\<rparr>"

definition bypassSecurityTrustResourceUrl :: "string \<Rightarrow> SafeResourceUrl" where
  "bypassSecurityTrustResourceUrl url = SafeResourceUrl url"

text \<open>\<open>if (token)\<close> on a \<open>string | null\<close>: null and the empty string are falsy.\<close>

fun truthy_token :: "string option \<Rightarrow> bool" where
  "truthy_token None = False"
| "truthy_token (Some t) = (t \<noteq> [])"

section \<open>EnvironmentService\<close>

definition TOKEN_KEY :: string where
  "TOKEN_KEY = ''authToken''"

text \<open>\<open>src/app/environment.service.ts\<close>: the class without the platform test.\<close>

definition setToken_unguarded :: "string \<Rightarrow> world \<Rightarrow> outcome" where
  "setToken_unguarded tok w =
     (let expires = clock w + 30 * 24 * 60 * 60 * 1000
      in assign_document_cookie
           (TOKEN_KEY @ ''='' @ tok @ ''; expires='' @ toUTCString expires @ ''; path=/'') w)"

fun find_cookie :: "string \<Rightarrow> string list \<Rightarrow> string option" where
  "find_cookie name [] = None"
| "find_cookie name (entry # cookieArray) =
     (let cookie = trim entry
      in if indexOf_is_0 cookie name then Some (substring_from cookie (length name))
         else find_cookie name cookieArray)"

definition getToken_unguarded :: "world \<Rightarrow> error + string option" where
  "getToken_unguarded w =
     (let name = TOKEN_KEY @ ''=''
      in case read_document_cookie w of
           Inl e \<Rightarrow> Inl e
         | Inr raw \<Rightarrow>
             (case decodeURIComponent raw of
                Inl e \<Rightarrow> Inl e
              | Inr decodedCookie \<Rightarrow> Inr (find_cookie name (split CHR '';'' decodedCookie))))"

definition removeToken_unguarded :: "world \<Rightarrow> outcome" where
  "removeToken_unguarded w =
     assign_document_cookie (TOKEN_KEY @ ''=; expires=Thu, 01 Jan 1970 00:00:00 UTC; path=/'') w"

definition hasToken_unguarded :: "world \<Rightarrow> error + bool" where
  "hasToken_unguarded w =
     (case getToken_unguarded w of Inl e \<Rightarrow> Inl e | Inr t \<Rightarrow> Inr (truthy_token t))"

text \<open>The class with the platform test: each method does the same inside
  \<open>if (isPlatformBrowser(this.platformId))\<close>.\<close>

definition setToken_guarded :: "string \<Rightarrow> world \<Rightarrow> outcome" where
  "setToken_guarded tok w =
     (if isPlatformBrowser (platformId w) then setToken_unguarded tok w else Returns w)"

definition getToken_guarded :: "world \<Rightarrow> error + string option" where
  "getToken_guarded w =
     (if isPlatformBrowser (platformId w) then getToken_unguarded w else Inr None)"

definition removeToken_guarded :: "world \<Rightarrow> outcome" where
  "removeToken_guarded w =
     (if isPlatformBrowser (platformId w) then removeToken_unguarded w else Returns w)"

definition hasToken_guarded :: "world \<Rightarrow> error + bool" where
  "hasToken_guarded w =
     (case getToken_guarded w of Inl e \<Rightarrow> Inl e | Inr t \<Rightarrow> Inr (truthy_token t))"

text \<open>The methods of the injected instance.\<close>

definition setToken :: "string \<Rightarrow> world \<Rightarrow> outcome" where
  "setToken tok w =
     (case environmentService w of
        Guarded \<Rightarrow> setToken_guarded tok w
      | Unguarded \<Rightarrow> setToken_unguarded tok w)"

definition getToken :: "world \<Rightarrow> error + string option" where
  "getToken w =
     (case environmentService w of
        Guarded \<Rightarrow> getToken_guarded w
      | Unguarded \<Rightarrow> getToken_unguarded w)"

definition removeToken :: "world \<Rightarrow> outcome" where
  "removeToken w =
     (case environmentService w of
        Guarded \<Rightarrow> removeToken_guarded w
      | Unguarded \<Rightarrow> removeToken_unguarded w)"

definition hasToken :: "world \<Rightarrow> error + bool" where
  "hasToken w =
     (case environmentService w of
        Guarded \<Rightarrow> hasToken_guarded w
      | Unguarded \<Rightarrow> hasToken_unguarded w)"


section \<open>The App component\<close>

text \<open>
  The component as its latest version has it (message listener, production frame
  addresses). The earlier version differs in the two base addresses and the target
  origin (\<open>http://localhost:3000\<close>), has no message listener and no console output;
  its \<open>updateIframeUrls\<close>, toggles, \<open>sendTokenToIframe\<close> and \<open>onLogin\<close> are the same
  statements.
\<close>

definition frame_origin :: string where
  "frame_origin = ''https://fe-react-v1.practeaz.workers.dev/''"

definition updateIframeUrls :: "world \<Rightarrow> outcome" where
  "updateIframeUrls w =
     (case getToken w of
        Inl e \<Rightarrow> Throws e w
      | Inr tok \<Rightarrow>
          (let patientUrl' =
                 (case tok of
                    Some t \<Rightarrow>
                      if truthy_token tok then patientUrl w @ ''?token='' @ encodeURIComponent t
                      else patientUrl w
                  | None \<Rightarrow> patientUrl w);
               w1 = w\<lparr>patientIframeUrl := Some (bypassSecurityTrustResourceUrl patientUrl')\<rparr>;
               staffUrl' =
                 (case tok of
                    Some t \<Rightarrow>
                      if truthy_token tok then staffUrl w1 @ ''?token='' @ encodeURIComponent t
                      else staffUrl w1
                  | None \<Rightarrow> staffUrl w1)
           in Returns (w1\<lparr>staffIframeUrl := Some (bypassSecurityTrustResourceUrl staffUrl')\<rparr>)))"

text \<open>The listener that \<open>setupMessageListener\<close> registers on \<open>window\<close>.\<close>

definition message_listener :: "message_event \<Rightarrow> world \<Rightarrow> outcome" where
  "message_listener event w =
     (if \<not> truthy (data event) \<or> typeof (data event) \<noteq> ''object'' then Returns w
      else
        and_then
          (case member (data event) ''type'' of
             Inl e \<Rightarrow> Throws e w
           | Inr ty \<Rightarrow>
               if ty = JStr ''CLOSE_PATIENT_IFRAME'' then
                 Returns
                   (ngZone_run (\<lambda>w. detectChanges (w\<lparr>showPatientIframe := False\<rparr>))
                      (console_log ''Closing patient iframe'' w))
               else Returns w)
          (\<lambda>w.
             case member (data event) ''type'' of
               Inl e \<Rightarrow> Throws e w
             | Inr ty \<Rightarrow>
                 if ty = JStr ''CLOSE_STAFF_IFRAME'' then
                   Returns
                     (ngZone_run (\<lambda>w. detectChanges (w\<lparr>showStaffIframe := False\<rparr>))
                        (console_log ''Closing staff iframe'' w))
                 else Returns w))"

text \<open>\<open>window\<close> is a global of the browsing context, like \<open>document\<close>.\<close>

definition setupMessageListener :: "world \<Rightarrow> outcome" where
  "setupMessageListener w =
     (if document w = None then Throws ReferenceError w
      else Returns (w\<lparr>message_listeners := Suc (message_listeners w)\<rparr>))"

definition ngOnInit :: "world \<Rightarrow> outcome" where
  "ngOnInit w = and_then (updateIframeUrls w) setupMessageListener"

definition setupIframeLoadListener :: "frame \<Rightarrow> world \<Rightarrow> world" where
  "setupIframeLoadListener type w = w"

definition sendTokenToIframe :: "frame \<Rightarrow> world \<Rightarrow> outcome" where
  "sendTokenToIframe type w =
     (case getToken w of
        Inl e \<Rightarrow> Throws e w
      | Inr tok \<Rightarrow>
          (case tok of
             None \<Rightarrow> Returns w
           | Some t \<Rightarrow>
               if truthy_token tok then
                 (let className = (if type = Patient then ''.patient-iframe'' else ''.staff-iframe'')
                  in case querySelector className w of
                       Inl e \<Rightarrow> Throws e w
                     | Inr None \<Rightarrow> Returns w
                     | Inr (Some el) \<Rightarrow>
                         if contentWindow el then
                           Returns
                             (w\<lparr>posted := posted w @
                                  [\<lparr>target = className,
                                    message = JObj [(''type'', JStr ''AUTH_TOKEN''), (''token'', JStr t)],
                                    targetOrigin = frame_origin\<rparr>]\<rparr>)
                         else Returns w)
               else Returns w))"

text \<open>What a timer does when it fires.\<close>

fun run_callback :: "callback \<Rightarrow> world \<Rightarrow> outcome" where
  "run_callback (SendToken type) w =
     and_then (sendTokenToIframe type w) (\<lambda>w. Returns (setupIframeLoadListener type w))"

definition bool_text :: "bool \<Rightarrow> string" where
  "bool_text b = (if b then ''true'' else ''false'')"

definition togglePatientIframe :: "world \<Rightarrow> outcome" where
  "togglePatientIframe w0 =
     (let w1 = w0\<lparr>showPatientIframe := \<not> showPatientIframe w0\<rparr>;
          w2 = console_log (''togglePatientIframe called - new state: '' @ bool_text (showPatientIframe w1)) w1
      in if showPatientIframe w2 then
           and_then (updateIframeUrls w2) (\<lambda>w. Returns (setTimeout (SendToken Patient) 500 w))
         else Returns w2)"

definition toggleStaffIframe :: "world \<Rightarrow> outcome" where
  "toggleStaffIframe w0 =
     (let w1 = w0\<lparr>showStaffIframe := \<not> showStaffIframe w0\<rparr>;
          w2 = console_log (''toggleStaffIframe called - new state: '' @ bool_text (showStaffIframe w1)) w1
      in if showStaffIframe w2 then
           and_then (updateIframeUrls w2) (\<lambda>w. Returns (setTimeout (SendToken Staff) 500 w))
         else Returns w2)"

definition onLogin :: "world \<Rightarrow> outcome" where
  "onLogin w =
     (if token w \<noteq> [] then
        and_then (setToken (token w) w)
          (\<lambda>w. and_then (alert ''Token set successfully!'' w)
                  (\<lambda>w. and_then (updateIframeUrls w)
                          (\<lambda>w. Returns (w\<lparr>token := []\<rparr>))))
      else Returns w)"

text \<open>The component as constructed, in a browser with an empty cookie store and both
  frames in the page.\<close>

definition fresh_page :: "service \<Rightarrow> world" where
  "fresh_page svc =
     \<lparr>platformId = PlatformBrowser,
      document = Some \<lparr>cookies = [],
                       iframes = [\<lparr>selector = ''.patient-iframe'', contentWindow = True\<rparr>,
                                  \<lparr>selector = ''.staff-iframe'', contentWindow = True\<rparr>]\<rparr>,
      clock = 1767052800000,
      timers = [], alerts = [], posted = [], message_listeners = 0,
      environmentService = svc,
      token = [],
      showPatientIframe = False, showStaffIframe = False,
      patientIframeUrl = None, staffIframeUrl = None,
      patientUrl = ''https://fe-react-v1.practeaz.workers.dev/patient'',
      staffUrl = ''https://fe-react-v1.practeaz.workers.dev/staff''\<rparr>"

text \<open>The same component rendered on the server: no \<open>document\<close>, no \<open>window\<close>.\<close>

definition server_render :: "service \<Rightarrow> world" where
  "server_render svc = (fresh_page svc)\<lparr>platformId := PlatformServer, document := None\<rparr>"


section \<open>Notions the properties are stated with\<close>

text \<open>A string of the model is the UTF-8 form of a JavaScript string when it is a
  run of ASCII bytes and well-formed multi-byte sequences.\<close>

function utf8_text :: "string \<Rightarrow> bool" where
  "utf8_text [] = True"
| "utf8_text (c # cs) =
     (let n = utf8_length (code c)
      in if n = 0 then False
         else if n = 1 then utf8_text cs
         else n \<le> length (c # cs) \<and> utf8_sequence (map code (take n (c # cs))) \<and>
              utf8_text (drop n (c # cs)))"
  by pat_completeness auto
termination
  by (relation "measure length") auto

text \<open>Message data that is a structured object rather than a primitive.\<close>

fun is_object :: "jsval \<Rightarrow> bool" where
  "is_object (JObj ps) = True"
| "is_object v = False"

text \<open>The world a call leaves behind, and whether it returned.\<close>

fun world_of :: "outcome \<Rightarrow> world" where
  "world_of (Returns w) = w"
| "world_of (Throws e w) = w"

fun returned :: "outcome \<Rightarrow> bool" where
  "returned (Returns w) = True"
| "returned (Throws e w) = False"

text \<open>The frame address \<open>updateIframeUrls\<close> builds from a base address and what
  \<open>getToken\<close> gave.\<close>

definition composed_url :: "string \<Rightarrow> string option \<Rightarrow> SafeResourceUrl" where
  "composed_url base tok =
     SafeResourceUrl
       (case tok of
          None \<Rightarrow> base
        | Some t \<Rightarrow> if t = [] then base else base @ ''?token='' @ encodeURIComponent t)"

text \<open>Messages and pages the properties are tried on: a close request from a
  foreign window, a string such as a development server posts, and a page whose
  patient frame is showing.\<close>

definition foreign_close :: message_event where
  "foreign_close = \<lparr>origin = ''https://evil.example'',
                    data = JObj [(''type'', JStr ''CLOSE_PATIENT_IFRAME'')]\<rparr>"

definition hmr_noise :: message_event where
  "hmr_noise = \<lparr>origin = ''http://localhost:4200'', data = JStr ''webpackHotUpdate''\<rparr>"

definition patient_shown :: world where
  "patient_shown = (fresh_page Guarded)\<lparr>showPatientIframe := True\<rparr>"

text \<open>Pages after a call of \<open>setToken\<close> with the empty string and with \<open>a b\<close>, and
  pages whose login field holds \<open>%\<close> and \<open>a;b\<close>.\<close>

definition empty_token_page :: world where
  "empty_token_page = world_of (setToken [] (fresh_page Guarded))"

definition logged_in_page :: world where
  "logged_in_page = world_of (setToken ''a b'' (fresh_page Guarded))"

definition percent_login :: world where
  "percent_login = (fresh_page Guarded)\<lparr>token := ''%''\<rparr>"

definition semicolon_login :: world where
  "semicolon_login = (fresh_page Guarded)\<lparr>token := ''a;b''\<rparr>"

text \<open>The page a login with \<open>%\<close> leaves behind.\<close>

definition unreadable_page :: world where
  "unreadable_page = world_of (onLogin percent_login)"

section \<open>Percent-encoding round trip\<close>

lemma hex_val_hex_digit: "n < 16 \<Longrightarrow> hex_val (hex_digit n) = Some n"
  by (auto simp: hex_val_def hex_digit_def code_def in_range_def)

lemma read_escape_escape: "b < 256 \<Longrightarrow> read_escape (escape b @ r) = Some (b, r)"
  by (simp add: escape_def hex_val_hex_digit)

lemma code_less: "code c < 256"
  by (simp add: code_def)

lemma char_of_code: "char_of (code c) = c"
  by (simp add: code_def)

lemma read_escapes_escape:
  "read_escapes (length cs) (concat (map (\<lambda>c. escape (code c)) cs) @ r) = Some (map code cs, r)"
  by (induction cs) (simp_all add: read_escape_escape code_less)

lemma percent_reserved: "\<not> unreserved CHR ''%''"
  by code_simp

lemma unreserved_ascii: "unreserved c \<Longrightarrow> code c < 128"
  by (auto simp: unreserved_def is_alpha_def is_digit_def in_range_def code_def)


lemma decodeURIComponent_step:
  "decode_unit x = Inr (u, r) \<Longrightarrow> x \<noteq> [] \<Longrightarrow>
   decodeURIComponent x = (case decodeURIComponent r of Inl e \<Rightarrow> Inl e | Inr t \<Rightarrow> Inr (u @ t))"
  by (cases x) (simp_all del: decode_unit.simps)

lemma decode_unit_percent_ascii:
  "read_escape (CHR ''%'' # x) = Some (b, r1) \<Longrightarrow> b < 128 \<Longrightarrow>
   decode_unit (CHR ''%'' # x) = Inr ([char_of b], r1)"
  by (simp del: read_escape.simps)

lemma decode_unit_ascii:
  assumes "code c < 128"
  shows "decode_unit ((if unreserved c then [c] else escape (code c)) @ r) = Inr ([c], r)"
proof (cases "unreserved c")
  case True
  then have "c \<noteq> CHR ''%''" using percent_reserved by auto
  with True show ?thesis by simp
next
  case False
  have shape: "escape (code c) @ r = CHR ''%'' # tl (escape (code c)) @ r"
    by (simp add: escape_def)
  have "read_escape (escape (code c) @ r) = Some (code c, r)"
    by (rule read_escape_escape) (rule code_less)
  then have "read_escape (CHR ''%'' # tl (escape (code c)) @ r) = Some (code c, r)"
    by (simp only: shape)
  from decode_unit_percent_ascii[OF this assms]
  have "decode_unit (escape (code c) @ r) = Inr ([c], r)"
    by (simp only: shape char_of_code)
  with False show ?thesis by simp
qed

lemma sequence_bytes:
  "utf8_sequence bs \<Longrightarrow> 2 \<le> length bs \<and> utf8_length (hd bs) = length bs \<and> (\<forall>b \<in> set bs. 128 \<le> b)"
  by (induction bs rule: utf8_sequence.induct) (auto simp: utf8_length_def in_range_def)

lemma decode_unit_percent:
  "read_escape (CHR ''%'' # x) = Some (b, r1) \<Longrightarrow> 128 \<le> b \<Longrightarrow> 2 \<le> utf8_length b \<Longrightarrow>
   read_escapes (utf8_length b - 1) r1 = Some (bs, r2) \<Longrightarrow> utf8_sequence (b # bs) \<Longrightarrow>
   decode_unit (CHR ''%'' # x) = Inr (map char_of (b # bs), r2)"
  by (simp del: read_escape.simps)

lemma decode_unit_sequence:
  assumes "utf8_sequence (map code (c # cs))"
  shows "decode_unit (concat (map (\<lambda>c. escape (code c)) (c # cs)) @ r) = Inr (c # cs, r)"
proof -
  let ?rest = "concat (map (\<lambda>c. escape (code c)) cs) @ r"
  from sequence_bytes[OF assms]
  have len: "utf8_length (code c) = Suc (length cs)" and hi: "128 \<le> code c" and two: "1 \<le> length cs"
    by simp_all
  have shape: "concat (map (\<lambda>c. escape (code c)) (c # cs)) @ r =
        CHR ''%'' # tl (escape (code c)) @ ?rest"
    by (simp add: escape_def)
  have "read_escape (escape (code c) @ ?rest) = Some (code c, ?rest)"
    by (rule read_escape_escape) (rule code_less)
  then have first: "read_escape (CHR ''%'' # tl (escape (code c)) @ ?rest) = Some (code c, ?rest)"
    by (simp add: escape_def)
  have rest: "read_escapes (utf8_length (code c) - 1) ?rest = Some (map code cs, r)"
    using read_escapes_escape[of cs r] len by simp
  have "decode_unit (CHR ''%'' # tl (escape (code c)) @ ?rest) = Inr (map char_of (code c # map code cs), r)"
  proof (rule decode_unit_percent[OF first hi _ rest])
    show "2 \<le> utf8_length (code c)" using len two by simp
    show "utf8_sequence (code c # map code cs)" using assms by simp
  qed
  then show ?thesis
    unfolding shape by (simp add: char_of_code comp_def)
qed

lemma sequence_reserved: "utf8_sequence (map code s) \<Longrightarrow> c \<in> set s \<Longrightarrow> \<not> unreserved c"
  using sequence_bytes[of "map code s"] unreserved_ascii[of c] by fastforce

lemma encode_sequence:
  "utf8_sequence (map code s) \<Longrightarrow> encodeURIComponent s = concat (map (\<lambda>c. escape (code c)) s)"
  unfolding encodeURIComponent_def
  by (rule arg_cong[where f = concat], rule map_cong) (auto dest: sequence_reserved)

lemma encode_append: "encodeURIComponent (a @ b) = encodeURIComponent a @ encodeURIComponent b"
  by (simp add: encodeURIComponent_def)

lemma encode_nonempty: "s \<noteq> [] \<Longrightarrow> encodeURIComponent s \<noteq> []"
  by (cases s) (auto simp: encodeURIComponent_def escape_def)

lemma decode_encode: "utf8_text s \<Longrightarrow> decodeURIComponent (encodeURIComponent s) = Inr s"
proof (induction s rule: utf8_text.induct)
  case 1
  show ?case by (simp add: encodeURIComponent_def)
next
  case (2 c cs)
  let ?n = "utf8_length (code c)"
  from "2.prems" have n0: "?n \<noteq> 0" by (simp add: Let_def split: if_splits)
  show ?case
  proof (cases "?n = 1")
    case True
    then have ascii: "code c < 128" by (auto simp: utf8_length_def split: if_splits)
    from True "2.prems" have "utf8_text cs" by (simp add: Let_def)
    with "2.IH"(1)[OF refl n0 True] have ih: "decodeURIComponent (encodeURIComponent cs) = Inr cs" by simp
    have enc: "encodeURIComponent (c # cs) = (if unreserved c then [c] else escape (code c)) @ encodeURIComponent cs"
      by (simp add: encodeURIComponent_def)
    have "encodeURIComponent (c # cs) \<noteq> []" by (rule encode_nonempty) simp
    from decodeURIComponent_step[OF _ this, of "[c]" "encodeURIComponent cs"] decode_unit_ascii[OF ascii] enc ih
    show ?thesis by simp
  next
    case False
    with n0 "2.prems" have len: "?n \<le> length (c # cs)"
      and seq: "utf8_sequence (map code (take ?n (c # cs)))"
      and rest: "utf8_text (drop ?n (c # cs))"
      by (simp_all add: Let_def)
    from "2.IH"(2)[OF refl n0 False] rest
    have ih: "decodeURIComponent (encodeURIComponent (drop ?n (c # cs))) = Inr (drop ?n (c # cs))" by simp
    from n0 have tk: "take ?n (c # cs) = c # take (?n - 1) cs" by (cases ?n) simp_all
    have enc: "encodeURIComponent (c # cs) =
        concat (map (\<lambda>c. escape (code c)) (c # take (?n - 1) cs)) @ encodeURIComponent (drop ?n (c # cs))"
    proof -
      have "encodeURIComponent (c # cs) = encodeURIComponent (take ?n (c # cs) @ drop ?n (c # cs))"
        by (simp only: append_take_drop_id)
      also have "\<dots> = encodeURIComponent (take ?n (c # cs)) @ encodeURIComponent (drop ?n (c # cs))"
        by (rule encode_append)
      also have "encodeURIComponent (take ?n (c # cs)) = concat (map (\<lambda>c. escape (code c)) (take ?n (c # cs)))"
        by (rule encode_sequence[OF seq])
      finally show ?thesis by (simp only: tk)
    qed
    have unit: "decode_unit (encodeURIComponent (c # cs)) = Inr (c # take (?n - 1) cs, encodeURIComponent (drop ?n (c # cs)))"
      unfolding enc using seq tk by (intro decode_unit_sequence) simp
    have "encodeURIComponent (c # cs) \<noteq> []" by (rule encode_nonempty) simp
    from decodeURIComponent_step[OF unit this] ih
    have "decodeURIComponent (encodeURIComponent (c # cs)) = Inr ((c # take (?n - 1) cs) @ drop ?n (c # cs))" by simp
    also have "(c # take (?n - 1) cs) @ drop ?n (c # cs) = c # cs"
      using tk append_take_drop_id[of ?n "c # cs"] by simp
    finally show ?thesis .
  qed
qed


section \<open>The message listener\<close>

lemma listener_not_object:
  "\<not> is_object (data event) \<Longrightarrow> message_listener event w = Returns w"
  by (cases "data event") (simp_all add: message_listener_def)

lemma member_object:
  "data event = JObj ps \<Longrightarrow>
   member (data event) ''type'' = Inr (case map_of ps ''type'' of None \<Rightarrow> JUndefined | Some v \<Rightarrow> v)"
  by simp

lemma listener_object:
  assumes obj: "data event = JObj ps"
  shows "message_listener event w =
     Returns (if map_of ps ''type'' = Some (JStr ''CLOSE_PATIENT_IFRAME'')
                then w\<lparr>showPatientIframe := False\<rparr>
              else if map_of ps ''type'' = Some (JStr ''CLOSE_STAFF_IFRAME'')
                then w\<lparr>showStaffIframe := False\<rparr>
              else w)"
proof -
  note ty = member_object[OF obj]
  have guard: "\<not> (\<not> truthy (data event) \<or> typeof (data event) \<noteq> ''object'')"
    by (simp add: obj)
  show ?thesis
  proof (cases "map_of ps ''type''")
    case None
    then show ?thesis
      unfolding message_listener_def ty by (simp only: guard if_False) simp
  next
    case (Some v)
    then show ?thesis
      unfolding message_listener_def ty
      by (simp only: guard if_False) (simp add: ngZone_run_def detectChanges_def console_log_def)
  qed
qed

text \<open>Only an object has a \<open>type\<close> that is a string.\<close>

lemma typed_is_object: "member v ''type'' = Inr (JStr s) \<Longrightarrow> \<exists>ps. v = JObj ps"
  by (cases v) simp_all

lemma listener_patient:
  assumes "member (data event) ''type'' = Inr (JStr ''CLOSE_PATIENT_IFRAME'')"
  shows "message_listener event w = Returns (w\<lparr>showPatientIframe := False\<rparr>)"
proof -
  from typed_is_object[OF assms] obtain ps where obj: "data event = JObj ps"
    by blast
  from assms member_object[OF obj]
  have "map_of ps ''type'' = Some (JStr ''CLOSE_PATIENT_IFRAME'')"
    by (cases "map_of ps ''type''") simp_all
  with listener_object[OF obj, of w] show ?thesis by simp
qed

lemma listener_staff:
  assumes "member (data event) ''type'' = Inr (JStr ''CLOSE_STAFF_IFRAME'')"
  shows "message_listener event w = Returns (w\<lparr>showStaffIframe := False\<rparr>)"
proof -
  from typed_is_object[OF assms] obtain ps where obj: "data event = JObj ps"
    by blast
  from assms member_object[OF obj]
  have "map_of ps ''type'' = Some (JStr ''CLOSE_STAFF_IFRAME'')"
    by (cases "map_of ps ''type''") simp_all
  with listener_object[OF obj, of w] show ?thesis by simp
qed

lemma listener_other:
  assumes "member (data event) ''type'' \<noteq> Inr (JStr ''CLOSE_PATIENT_IFRAME'')"
    and "member (data event) ''type'' \<noteq> Inr (JStr ''CLOSE_STAFF_IFRAME'')"
  shows "message_listener event w = Returns w"
proof (cases "is_object (data event)")
  case False
  then show ?thesis by (rule listener_not_object)
next
  case True
  then obtain ps where obj: "data event = JObj ps"
    by (cases "data event") simp_all
  from assms member_object[OF obj]
  have "map_of ps ''type'' \<noteq> Some (JStr ''CLOSE_PATIENT_IFRAME'')"
    and "map_of ps ''type'' \<noteq> Some (JStr ''CLOSE_STAFF_IFRAME'')"
    by auto
  with listener_object[OF obj, of w] show ?thesis by simp
qed

text \<open>The listener never reads \<open>event.origin\<close>.\<close>

lemma listener_any_origin:
  "message_listener (event\<lparr>origin := orig\<rparr>) w = message_listener event w"
  by (simp add: message_listener_def)

text \<open>Reading the token looks at the service, the platform, the clock and the cookie
  store and at nothing else.\<close>

lemma getToken_depends:
  assumes "environmentService w' = environmentService w" and "platformId w' = platformId w"
    and "document w' = document w" and "clock w' = clock w"
  shows "getToken w' = getToken w"
proof -
  have "read_document_cookie w' = read_document_cookie w"
    using assms by (simp add: read_document_cookie_def split: option.splits)
  then have plain: "getToken_unguarded w' = getToken_unguarded w"
    by (simp add: getToken_unguarded_def)
  then have "getToken_guarded w' = getToken_guarded w"
    using assms by (simp add: getToken_guarded_def)
  with plain assms show ?thesis
    by (simp add: getToken_def split: service.splits)
qed

text \<open>
  C1. Claimed: a message whose origin differs from the embedded frame's origin is a
  no-op for the listener, even when its type is a known one. The listener has no
  origin test: a close request from a foreign window hides the patient frame.
\<close>

theorem foreign_origin_closes_frame:
  "origin foreign_close \<noteq> frame_origin \<and>
   message_listener foreign_close patient_shown \<noteq> Returns patient_shown"
proof -
  have "origin foreign_close \<noteq> frame_origin"
    by (simp add: foreign_close_def frame_origin_def)
  moreover have "message_listener foreign_close patient_shown
                   = Returns (patient_shown\<lparr>showPatientIframe := False\<rparr>)"
  proof -
    have d: "data foreign_close = JObj [(''type'', JStr ''CLOSE_PATIENT_IFRAME'')]"
      by (simp add: foreign_close_def)
    from listener_object[OF d, of patient_shown] show ?thesis by simp
  qed
  moreover have "patient_shown\<lparr>showPatientIframe := False\<rparr> \<noteq> patient_shown"
  proof
    assume "patient_shown\<lparr>showPatientIframe := False\<rparr> = patient_shown"
    then have "showPatientIframe (patient_shown\<lparr>showPatientIframe := False\<rparr>)
                 = showPatientIframe patient_shown"
      by (rule arg_cong)
    then show False by (simp add: patient_shown_def)
  qed
  ultimately show ?thesis by simp
qed

text \<open>
  C1, as the code has it: a message whose origin differs from the embedded frame's
  origin is handled exactly as the same message from that origin. It is a no-op
  unless its type is \<open>CLOSE_PATIENT_IFRAME\<close> or \<open>CLOSE_STAFF_IFRAME\<close>; those two
  hide their frame.
\<close>

theorem listener_origin_blind:
  assumes "origin event \<noteq> frame_origin"
  shows "message_listener event w = message_listener (event\<lparr>origin := frame_origin\<rparr>) w \<and>
     (member (data event) ''type'' \<noteq> Inr (JStr ''CLOSE_PATIENT_IFRAME'') \<and>
      member (data event) ''type'' \<noteq> Inr (JStr ''CLOSE_STAFF_IFRAME'')
        \<longrightarrow> message_listener event w = Returns w) \<and>
     (member (data event) ''type'' = Inr (JStr ''CLOSE_PATIENT_IFRAME'')
        \<longrightarrow> message_listener event w = Returns (w\<lparr>showPatientIframe := False\<rparr>)) \<and>
     (member (data event) ''type'' = Inr (JStr ''CLOSE_STAFF_IFRAME'')
        \<longrightarrow> message_listener event w = Returns (w\<lparr>showStaffIframe := False\<rparr>))"
  using listener_any_origin[where event = event and orig = frame_origin and w = w]
    listener_other[of event w] listener_patient[of event w] listener_staff[of event w]
  by simp

theorem listener_origin_blind_witness:
  "origin foreign_close \<noteq> frame_origin \<and>
   message_listener foreign_close patient_shown
     = message_listener (foreign_close\<lparr>origin := frame_origin\<rparr>) patient_shown \<and>
   message_listener foreign_close patient_shown = Returns (patient_shown\<lparr>showPatientIframe := False\<rparr>)"
proof -
  have foreign: "origin foreign_close \<noteq> frame_origin"
    by (simp add: foreign_close_def frame_origin_def)
  have ty: "member (data foreign_close) ''type'' = Inr (JStr ''CLOSE_PATIENT_IFRAME'')"
    by (simp add: foreign_close_def)
  from listener_origin_blind[OF foreign, of patient_shown] ty
  have "message_listener foreign_close patient_shown
          = message_listener (foreign_close\<lparr>origin := frame_origin\<rparr>) patient_shown"
    and "message_listener foreign_close patient_shown
          = Returns (patient_shown\<lparr>showPatientIframe := False\<rparr>)"
    by blast+
  with foreign show ?thesis by (intro conjI)
qed

text \<open>
  C4. The listener dispatches on \<open>event.data.type\<close>: a message of type
  \<open>CLOSE_PATIENT_IFRAME\<close> sets the patient frame's flag to false, one of type
  \<open>CLOSE_STAFF_IFRAME\<close> sets the staff frame's flag to false, and a message of any
  other type (or with no type at all) leaves the page as it was.
\<close>

theorem listener_dispatch:
  "(member (data event) ''type'' = Inr (JStr ''CLOSE_PATIENT_IFRAME'')
      \<longrightarrow> message_listener event w = Returns (w\<lparr>showPatientIframe := False\<rparr>)) \<and>
   (member (data event) ''type'' = Inr (JStr ''CLOSE_STAFF_IFRAME'')
      \<longrightarrow> message_listener event w = Returns (w\<lparr>showStaffIframe := False\<rparr>)) \<and>
   (member (data event) ''type'' \<noteq> Inr (JStr ''CLOSE_PATIENT_IFRAME'') \<and>
    member (data event) ''type'' \<noteq> Inr (JStr ''CLOSE_STAFF_IFRAME'')
      \<longrightarrow> message_listener event w = Returns w)"
  using listener_patient[of event w] listener_staff[of event w] listener_other[of event w]
  by simp

theorem listener_dispatch_witness:
  "member (data foreign_close) ''type'' = Inr (JStr ''CLOSE_PATIENT_IFRAME'') \<and>
   message_listener foreign_close patient_shown = Returns (patient_shown\<lparr>showPatientIframe := False\<rparr>) \<and>
   member (data hmr_noise) ''type'' \<noteq> Inr (JStr ''CLOSE_PATIENT_IFRAME'') \<and>
   member (data hmr_noise) ''type'' \<noteq> Inr (JStr ''CLOSE_STAFF_IFRAME'') \<and>
   message_listener hmr_noise patient_shown = Returns patient_shown"
proof -
  have ty: "member (data foreign_close) ''type'' = Inr (JStr ''CLOSE_PATIENT_IFRAME'')"
    by (simp add: foreign_close_def)
  have other: "member (data hmr_noise) ''type'' \<noteq> Inr (JStr ''CLOSE_PATIENT_IFRAME'')"
      "member (data hmr_noise) ''type'' \<noteq> Inr (JStr ''CLOSE_STAFF_IFRAME'')"
    by (simp_all add: hmr_noise_def)
  from listener_dispatch[of foreign_close patient_shown] ty
  have "message_listener foreign_close patient_shown = Returns (patient_shown\<lparr>showPatientIframe := False\<rparr>)"
    by blast
  moreover from listener_dispatch[of hmr_noise patient_shown] other
  have "message_listener hmr_noise patient_shown = Returns patient_shown"
    by blast
  ultimately show ?thesis
    using ty other by (intro conjI)
qed

text \<open>
  C8. A message whose data is not an object (a string, a number, a boolean, null,
  undefined) makes the listener return, without throwing, with the page unchanged.
\<close>

theorem listener_ignores_primitives:
  "\<not> is_object (data event) \<Longrightarrow> message_listener event w = Returns w"
  by (cases "data event") (simp_all add: message_listener_def)

theorem listener_ignores_primitives_witness:
  "\<not> is_object (data hmr_noise) \<and>
   message_listener hmr_noise patient_shown = Returns patient_shown"
proof -
  have prim: "\<not> is_object (data hmr_noise)"
    by (simp add: hmr_noise_def)
  from listener_ignores_primitives[OF prim, of patient_shown] prim
  show ?thesis by (intro conjI)
qed

text \<open>
  C10. Whatever the message, the listener returns, and the page it leaves differs from
  the one it found in the two visibility flags at most: the stored token (the cookie
  store, and so what \<open>getToken\<close> gives), both frame addresses and the login field
  are as before.
\<close>

theorem listener_frame:
  "\<exists>w'. message_listener event w = Returns w' \<and>
        w' = w\<lparr>showPatientIframe := showPatientIframe w', showStaffIframe := showStaffIframe w'\<rparr> \<and>
        getToken w' = getToken w \<and> document w' = document w \<and> token w' = token w \<and>
        patientIframeUrl w' = patientIframeUrl w \<and> staffIframeUrl w' = staffIframeUrl w"
proof -
  have frame: "\<exists>p s. message_listener event w = Returns (w\<lparr>showPatientIframe := p, showStaffIframe := s\<rparr>)"
  proof (cases "is_object (data event)")
    case False
    then have "message_listener event w
                 = Returns (w\<lparr>showPatientIframe := showPatientIframe w,
                              showStaffIframe := showStaffIframe w\<rparr>)"
      by (simp add: listener_not_object)
    then show ?thesis by blast
  next
    case True
    then obtain ps where obj: "data event = JObj ps"
      by (cases "data event") simp_all
    let ?P = "map_of ps ''type'' = Some (JStr ''CLOSE_PATIENT_IFRAME'')"
    let ?S = "map_of ps ''type'' = Some (JStr ''CLOSE_STAFF_IFRAME'')"
    have "message_listener event w =
            Returns (w\<lparr>showPatientIframe := (if ?P then False else showPatientIframe w),
                       showStaffIframe := (if \<not> ?P \<and> ?S then False else showStaffIframe w)\<rparr>)"
      unfolding listener_object[OF obj, of w] by simp
    then show ?thesis by blast
  qed
  then obtain p s
    where run: "message_listener event w = Returns (w\<lparr>showPatientIframe := p, showStaffIframe := s\<rparr>)"
    by blast
  have "getToken (w\<lparr>showPatientIframe := p, showStaffIframe := s\<rparr>) = getToken w"
    by (rule getToken_depends) simp_all
  with run show ?thesis by simp
qed

theorem listener_frame_witness:
  "\<exists>w'. message_listener foreign_close patient_shown = Returns w' \<and>
        w' = patient_shown\<lparr>showPatientIframe := showPatientIframe w',
                            showStaffIframe := showStaffIframe w'\<rparr> \<and>
        getToken w' = getToken patient_shown \<and> document w' = document patient_shown \<and>
        token w' = token patient_shown \<and>
        patientIframeUrl w' = patientIframeUrl patient_shown \<and>
        staffIframeUrl w' = staffIframeUrl patient_shown"
  by (rule listener_frame)


section \<open>The token store\<close>

lemma hasToken_getToken:
  "hasToken w = (case getToken w of Inl e \<Rightarrow> Inl e | Inr t \<Rightarrow> Inr (truthy_token t))"
  by (simp add: hasToken_def getToken_def hasToken_guarded_def hasToken_unguarded_def
        split: service.splits)

text \<open>In a browser the two versions of the service do the same.\<close>

lemma guarded_in_browser:
  assumes "platformId w = PlatformBrowser"
  shows "setToken_guarded t w = setToken_unguarded t w"
    and "getToken_guarded w = getToken_unguarded w"
    and "removeToken_guarded w = removeToken_unguarded w"
    and "hasToken_guarded w = hasToken_unguarded w"
  using assms
  by (simp_all add: setToken_guarded_def getToken_guarded_def removeToken_guarded_def
        hasToken_guarded_def hasToken_unguarded_def isPlatformBrowser_def)

lemma service_in_browser:
  assumes "platformId w = PlatformBrowser"
  shows "setToken t w = setToken_unguarded t w" and "getToken w = getToken_unguarded w"
  using guarded_in_browser[OF assms]
  by (simp_all add: setToken_def getToken_def split: service.splits)

text \<open>On the server the version with the platform test touches nothing and reports no
  token.\<close>

lemma guarded_on_server:
  assumes "platformId w = PlatformServer"
  shows "setToken_guarded t w = Returns w"
    and "getToken_guarded w = Inr None"
    and "removeToken_guarded w = Returns w"
    and "hasToken_guarded w = Inr False"
  using assms
  by (simp_all add: setToken_guarded_def getToken_guarded_def removeToken_guarded_def
        hasToken_guarded_def isPlatformBrowser_def)

text \<open>Storing a token changes the cookie store and nothing else, and returns wherever
  there is a \<open>document\<close>.\<close>

lemma setToken_unguarded_keeps:
  "platformId (world_of (setToken_unguarded t w)) = platformId w"
  "environmentService (world_of (setToken_unguarded t w)) = environmentService w"
  "clock (world_of (setToken_unguarded t w)) = clock w"
  "timers (world_of (setToken_unguarded t w)) = timers w"
  "alerts (world_of (setToken_unguarded t w)) = alerts w"
  "posted (world_of (setToken_unguarded t w)) = posted w"
  "token (world_of (setToken_unguarded t w)) = token w"
  "showPatientIframe (world_of (setToken_unguarded t w)) = showPatientIframe w"
  "showStaffIframe (world_of (setToken_unguarded t w)) = showStaffIframe w"
  "patientIframeUrl (world_of (setToken_unguarded t w)) = patientIframeUrl w"
  "staffIframeUrl (world_of (setToken_unguarded t w)) = staffIframeUrl w"
  "patientUrl (world_of (setToken_unguarded t w)) = patientUrl w"
  "staffUrl (world_of (setToken_unguarded t w)) = staffUrl w"
  by (simp_all add: setToken_unguarded_def assign_document_cookie_def Let_def split: option.splits)

lemma setToken_unguarded_returns:
  "document w \<noteq> None \<Longrightarrow> setToken_unguarded t w = Returns (world_of (setToken_unguarded t w))"
  by (auto simp: setToken_unguarded_def assign_document_cookie_def Let_def)

lemma fresh_page_browser: "platformId ((fresh_page svc)\<lparr>token := field\<rparr>) = PlatformBrowser"
  by (simp add: fresh_page_def)

lemma fresh_page_document: "document ((fresh_page svc)\<lparr>token := field\<rparr>) \<noteq> None"
  by (simp add: fresh_page_def)

lemma fresh_page_field: "(fresh_page svc)\<lparr>token := []\<rparr> = fresh_page svc"
  by (simp add: fresh_page_def)

lemma getToken_after_setToken:
  "getToken (world_of (setToken t ((fresh_page svc)\<lparr>token := field\<rparr>)))
     = getToken_unguarded (world_of (setToken_unguarded t ((fresh_page svc)\<lparr>token := field\<rparr>)))"
proof -
  let ?w = "(fresh_page svc)\<lparr>token := field\<rparr>"
  have same: "setToken t ?w = setToken_unguarded t ?w"
    by (rule service_in_browser) (rule fresh_page_browser)
  have "platformId (world_of (setToken_unguarded t ?w)) = PlatformBrowser"
    by (simp only: setToken_unguarded_keeps fresh_page_browser)
  then show ?thesis
    by (simp only: same service_in_browser(2))
qed

text \<open>What the browser and the service make of five tokens, by evaluation: the empty
  string, \<open>a b\<close>, \<open>a;b\<close>, \<open>%\<close> and \<open>abc%3D\<close>.\<close>

lemma empty_token_stored: "getToken empty_token_page = Inr (Some [])"
  unfolding empty_token_page_def by code_simp

lemma logged_in_token: "getToken logged_in_page = Inr (Some ''a b'')"
  unfolding logged_in_page_def by code_simp

lemma semicolon_cut:
  "getToken_unguarded (world_of (setToken_unguarded ''a;b'' ((fresh_page svc)\<lparr>token := field\<rparr>)))
     = Inr (Some ''a'')"
  by code_simp

lemma percent_unreadable:
  "getToken_unguarded (world_of (setToken_unguarded ''%'' ((fresh_page svc)\<lparr>token := field\<rparr>)))
     = Inl URIError"
  by code_simp

lemma escape_decoded:
  "getToken_unguarded (world_of (setToken_unguarded ''abc%3D'' ((fresh_page svc)\<lparr>token := field\<rparr>)))
     = Inr (Some ''abc='')"
  by code_simp

lemma fresh_page_no_token: "getToken (fresh_page svc) = Inr None"
proof -
  have "getToken_unguarded (fresh_page svc) = Inr None"
    by code_simp
  moreover have "platformId (fresh_page svc) = PlatformBrowser"
    by (simp add: fresh_page_def)
  ultimately show ?thesis
    by (simp only: service_in_browser(2))
qed

text \<open>No token before any \<open>setToken\<close>, one right after it, none after
  \<open>removeToken\<close>.\<close>

lemma token_lifecycle:
  "hasToken (fresh_page Guarded) = Inr False \<and>
   hasToken logged_in_page = Inr True \<and>
   hasToken (world_of (removeToken logged_in_page)) = Inr False"
  unfolding logged_in_page_def by code_simp

text \<open>
  C2. Claimed: \<open>getToken()\<close> after \<open>setToken(t)\<close> gives \<open>t\<close> for every printable
  \<open>t\<close>, a \<open>;\<close> inside it included. \<open>setToken\<close> writes the token into the cookie
  string as it is, while \<open>getToken\<close> percent-decodes what it reads: in a browser with
  an empty cookie store, and with either version of the service, the token \<open>a;b\<close>
  comes back as \<open>a\<close>, the token \<open>abc%3D\<close> comes back as \<open>abc=\<close>, and after
  storing \<open>%\<close> the call of \<open>getToken\<close> raises URIError.
\<close>

theorem token_round_trip_fails:
  "getToken (world_of (setToken ''a;b'' (fresh_page svc))) = Inr (Some ''a'') \<and>
   getToken (world_of (setToken ''abc%3D'' (fresh_page svc))) = Inr (Some ''abc='') \<and>
   getToken (world_of (setToken ''%'' (fresh_page svc))) = Inl URIError"
  using getToken_after_setToken[where t = "''a;b''" and svc = svc and field = "[]"]
    getToken_after_setToken[where t = "''abc%3D''" and svc = svc and field = "[]"]
    getToken_after_setToken[where t = "''%''" and svc = svc and field = "[]"]
    semicolon_cut[where svc = svc and field = "[]"]
    escape_decoded[where svc = svc and field = "[]"]
    percent_unreadable[where svc = svc and field = "[]"]
  by (simp only: fresh_page_field)

text \<open>
  C5. Claimed: outside a browsing context every operation of the token store is a
  no-op or reports no token. The version of the service with the platform test does
  that (\<open>guarded_on_server\<close>); the version without it reads \<open>document\<close>
  unconditionally, and where there is no \<open>document\<close> each of its four operations
  raises ReferenceError.
\<close>

theorem unguarded_service_raises_without_document:
  assumes "document w = None"
  shows "setToken_unguarded t w = Throws ReferenceError w \<and>
         getToken_unguarded w = Inl ReferenceError \<and>
         removeToken_unguarded w = Throws ReferenceError w \<and>
         hasToken_unguarded w = Inl ReferenceError"
  using assms
  by (simp add: setToken_unguarded_def getToken_unguarded_def removeToken_unguarded_def
        hasToken_unguarded_def assign_document_cookie_def read_document_cookie_def)

theorem unguarded_service_raises_without_document_witness:
  "document (server_render Unguarded) = None \<and>
   setToken ''abc'' (server_render Unguarded) = Throws ReferenceError (server_render Unguarded) \<and>
   getToken (server_render Unguarded) = Inl ReferenceError \<and>
   removeToken (server_render Unguarded) = Throws ReferenceError (server_render Unguarded) \<and>
   hasToken (server_render Unguarded) = Inl ReferenceError"
proof -
  have none: "document (server_render Unguarded) = None"
    and svc: "environmentService (server_render Unguarded) = Unguarded"
    by (simp_all add: server_render_def fresh_page_def)
  from unguarded_service_raises_without_document[OF none, of "''abc''"] none svc show ?thesis
    by (simp add: setToken_def getToken_def removeToken_def hasToken_def)
qed

section \<open>Frame addresses\<close>

lemma updateIframeUrls_composed:
  assumes "getToken w = Inr tok"
  shows "updateIframeUrls w =
           Returns (w\<lparr>patientIframeUrl := Some (composed_url (patientUrl w) tok),
                      staffIframeUrl := Some (composed_url (staffUrl w) tok)\<rparr>)"
  by (cases tok)
     (simp_all add: updateIframeUrls_def assms composed_url_def bypassSecurityTrustResourceUrl_def
        Let_def)

lemma updateIframeUrls_raises:
  "getToken w = Inl e \<Longrightarrow> updateIframeUrls w = Throws e w"
  by (simp add: updateIframeUrls_def)

text \<open>Start-up in a browser with no token: both addresses are the base addresses and
  one message listener is installed.\<close>

lemma startup_installs_listener:
  "ngOnInit (fresh_page svc) =
     Returns ((fresh_page svc)\<lparr>patientIframeUrl := Some (SafeResourceUrl (patientUrl (fresh_page svc))),
                                staffIframeUrl := Some (SafeResourceUrl (staffUrl (fresh_page svc))),
                                message_listeners := 1\<rparr>)"
  using updateIframeUrls_composed[OF fresh_page_no_token, of svc]
  by (simp add: ngOnInit_def setupMessageListener_def composed_url_def fresh_page_def)

lemma sendTokenToIframe_falsy:
  "getToken w = Inr tok \<Longrightarrow> \<not> truthy_token tok \<Longrightarrow> sendTokenToIframe type w = Returns w"
  by (cases tok) (simp_all add: sendTokenToIframe_def)

lemma encode_space: "encodeURIComponent ''a b'' = ''a%20b''"
  by code_simp

lemma utf8_space: "utf8_text ''a b''"
  by code_simp

text \<open>
  C9. When the stored token is the empty string, \<open>hasToken\<close> answers false,
  \<open>updateIframeUrls\<close> sets both frame addresses to the base addresses with nothing
  appended, and \<open>sendTokenToIframe\<close> posts nothing and leaves the page as it was.
\<close>

theorem empty_token_is_absent:
  assumes "getToken w = Inr (Some [])"
  shows "hasToken w = Inr False \<and>
         updateIframeUrls w =
           Returns (w\<lparr>patientIframeUrl := Some (SafeResourceUrl (patientUrl w)),
                      staffIframeUrl := Some (SafeResourceUrl (staffUrl w))\<rparr>) \<and>
         sendTokenToIframe type w = Returns w"
proof -
  have "hasToken w = Inr False"
    by (simp add: hasToken_getToken assms)
  moreover have "updateIframeUrls w =
           Returns (w\<lparr>patientIframeUrl := Some (SafeResourceUrl (patientUrl w)),
                      staffIframeUrl := Some (SafeResourceUrl (staffUrl w))\<rparr>)"
    using updateIframeUrls_composed[OF assms] by (simp add: composed_url_def)
  moreover have "sendTokenToIframe type w = Returns w"
    by (rule sendTokenToIframe_falsy[OF assms]) simp
  ultimately show ?thesis by (intro conjI)
qed

theorem empty_token_is_absent_witness:
  "getToken empty_token_page = Inr (Some []) \<and>
   hasToken empty_token_page = Inr False \<and>
   updateIframeUrls empty_token_page =
     Returns (empty_token_page\<lparr>patientIframeUrl := Some (SafeResourceUrl (patientUrl empty_token_page)),
                staffIframeUrl := Some (SafeResourceUrl (staffUrl empty_token_page))\<rparr>) \<and>
   sendTokenToIframe Patient empty_token_page = Returns empty_token_page"
  using empty_token_is_absent[OF empty_token_stored, of Patient] empty_token_stored
  by (intro conjI) blast+

text \<open>
  C3. Claimed: with no token stored the composed address is the base address, and with
  a token \<open>t\<close> stored it is the base address followed by \<open>?token=\<close> and the
  percent-encoding of \<open>t\<close>. After \<open>setToken("")\<close> the stored token is the empty string,
  and the composed address is the base address with nothing appended.
\<close>

theorem empty_token_gets_no_parameter:
  "getToken empty_token_page = Inr (Some []) \<and>
   patientIframeUrl (world_of (updateIframeUrls empty_token_page))
     \<noteq> Some (SafeResourceUrl (patientUrl empty_token_page @ ''?token='' @ encodeURIComponent []))"
proof -
  have "patientIframeUrl (world_of (updateIframeUrls empty_token_page))
          = Some (SafeResourceUrl (patientUrl empty_token_page))"
    by (simp add: updateIframeUrls_composed[OF empty_token_stored] composed_url_def)
  with empty_token_stored show ?thesis by simp
qed

text \<open>
  C3, as the code has it: with no token stored, or the empty string stored, both
  composed addresses are the base addresses unchanged; with a non-empty token \<open>t\<close>
  stored they are the base addresses followed by \<open>?token=\<close> and
  \<open>encodeURIComponent(t)\<close>, and \<open>decodeURIComponent\<close> of that parameter gives \<open>t\<close>
  back. The token \<open>a b\<close> is encoded as \<open>a%20b\<close>.
\<close>

theorem url_composition:
  assumes "getToken w = Inr tok"
  shows "(tok = None \<or> tok = Some [] \<longrightarrow>
            updateIframeUrls w =
              Returns (w\<lparr>patientIframeUrl := Some (SafeResourceUrl (patientUrl w)),
                         staffIframeUrl := Some (SafeResourceUrl (staffUrl w))\<rparr>)) \<and>
         (\<forall>t. tok = Some t \<and> t \<noteq> [] \<longrightarrow>
            updateIframeUrls w =
              Returns (w\<lparr>patientIframeUrl :=
                           Some (SafeResourceUrl (patientUrl w @ ''?token='' @ encodeURIComponent t)),
                         staffIframeUrl :=
                           Some (SafeResourceUrl (staffUrl w @ ''?token='' @ encodeURIComponent t))\<rparr>) \<and>
            (utf8_text t \<longrightarrow> decodeURIComponent (encodeURIComponent t) = Inr t)) \<and>
         encodeURIComponent ''a b'' = ''a%20b''"
  using updateIframeUrls_composed[OF assms] decode_encode encode_space
  by (auto simp: composed_url_def)

theorem url_composition_witness:
  "getToken logged_in_page = Inr (Some ''a b'') \<and>
   updateIframeUrls logged_in_page =
     Returns (logged_in_page\<lparr>patientIframeUrl :=
                  Some (SafeResourceUrl (patientUrl logged_in_page @ ''?token=a%20b'')),
                staffIframeUrl :=
                  Some (SafeResourceUrl (staffUrl logged_in_page @ ''?token=a%20b''))\<rparr>) \<and>
   decodeURIComponent ''a%20b'' = Inr ''a b''"
proof -
  have ne: "''a b'' \<noteq> []" by simp
  from url_composition[OF logged_in_token] ne utf8_space
  have "updateIframeUrls logged_in_page =
     Returns (logged_in_page\<lparr>patientIframeUrl :=
                  Some (SafeResourceUrl (patientUrl logged_in_page @ ''?token='' @ encodeURIComponent ''a b'')),
                staffIframeUrl :=
                  Some (SafeResourceUrl (staffUrl logged_in_page @ ''?token='' @ encodeURIComponent ''a b''))\<rparr>)"
    and "decodeURIComponent (encodeURIComponent ''a b'') = Inr ''a b''"
    by blast+
  with logged_in_token show ?thesis
    by (simp add: encode_space)
qed


section \<open>Showing and hiding the frames\<close>

text \<open>The callback a toggle schedules is the message sender (followed by a stub).\<close>

lemma run_callback_sends:
  "run_callback (SendToken type) w = sendTokenToIframe type w"
  by (cases "sendTokenToIframe type w") (simp_all add: setupIframeLoadListener_def)

lemma togglePatientIframe_hide:
  "showPatientIframe w \<Longrightarrow> togglePatientIframe w = Returns (w\<lparr>showPatientIframe := False\<rparr>)"
  by (simp add: togglePatientIframe_def console_log_def Let_def)

lemma toggleStaffIframe_hide:
  "showStaffIframe w \<Longrightarrow> toggleStaffIframe w = Returns (w\<lparr>showStaffIframe := False\<rparr>)"
  by (simp add: toggleStaffIframe_def console_log_def Let_def)

lemma togglePatientIframe_show:
  assumes "\<not> showPatientIframe w" and "getToken w = Inr tok"
  shows "togglePatientIframe w =
           Returns (w\<lparr>showPatientIframe := True,
                      patientIframeUrl := Some (composed_url (patientUrl w) tok),
                      staffIframeUrl := Some (composed_url (staffUrl w) tok),
                      timers := timers w @ [(SendToken Patient, 500)]\<rparr>)"
proof -
  have "getToken (w\<lparr>showPatientIframe := True\<rparr>) = Inr tok"
    using assms(2) getToken_depends[of "w\<lparr>showPatientIframe := True\<rparr>" w] by simp
  from updateIframeUrls_composed[OF this] assms(1) show ?thesis
    by (simp add: togglePatientIframe_def console_log_def Let_def setTimeout_def)
qed

lemma toggleStaffIframe_show:
  assumes "\<not> showStaffIframe w" and "getToken w = Inr tok"
  shows "toggleStaffIframe w =
           Returns (w\<lparr>showStaffIframe := True,
                      patientIframeUrl := Some (composed_url (patientUrl w) tok),
                      staffIframeUrl := Some (composed_url (staffUrl w) tok),
                      timers := timers w @ [(SendToken Staff, 500)]\<rparr>)"
proof -
  have "getToken (w\<lparr>showStaffIframe := True\<rparr>) = Inr tok"
    using assms(2) getToken_depends[of "w\<lparr>showStaffIframe := True\<rparr>" w] by simp
  from updateIframeUrls_composed[OF this] assms(1) show ?thesis
    by (simp add: toggleStaffIframe_def console_log_def Let_def setTimeout_def)
qed

text \<open>When the cookie string cannot be decoded, a toggle that shows a frame stops after
  the flip: no address is recomputed and nothing is scheduled.\<close>

lemma togglePatientIframe_unreadable:
  assumes "\<not> showPatientIframe w" and "getToken w = Inl e"
  shows "togglePatientIframe w = Throws e (w\<lparr>showPatientIframe := True\<rparr>)"
proof -
  have "getToken (w\<lparr>showPatientIframe := True\<rparr>) = Inl e"
    using assms(2) getToken_depends[of "w\<lparr>showPatientIframe := True\<rparr>" w] by simp
  from updateIframeUrls_raises[OF this] assms(1) show ?thesis
    by (simp add: togglePatientIframe_def console_log_def Let_def)
qed

lemma toggleStaffIframe_unreadable:
  assumes "\<not> showStaffIframe w" and "getToken w = Inl e"
  shows "toggleStaffIframe w = Throws e (w\<lparr>showStaffIframe := True\<rparr>)"
proof -
  have "getToken (w\<lparr>showStaffIframe := True\<rparr>) = Inl e"
    using assms(2) getToken_depends[of "w\<lparr>showStaffIframe := True\<rparr>" w] by simp
  from updateIframeUrls_raises[OF this] assms(1) show ?thesis
    by (simp add: toggleStaffIframe_def console_log_def Let_def)
qed

text \<open>
  Where the token store can be read, a toggle does all of this: from hidden to shown,
  with \<open>tok\<close> what the token store gives at that moment, it recomputes the composed
  addresses from \<open>tok\<close> and appends exactly one timer, due after 500 ms, whose
  callback is the message sender for that frame; from shown to hidden it changes the
  flag and nothing else, whatever the token store holds.
\<close>

lemma toggle_with_readable_store:
  "(showPatientIframe w \<longrightarrow> togglePatientIframe w = Returns (w\<lparr>showPatientIframe := False\<rparr>)) \<and>
   (\<not> showPatientIframe w \<and> getToken w = Inr tok \<longrightarrow>
      togglePatientIframe w =
        Returns (w\<lparr>showPatientIframe := True,
                   patientIframeUrl := Some (composed_url (patientUrl w) tok),
                   staffIframeUrl := Some (composed_url (staffUrl w) tok),
                   timers := timers w @ [(SendToken Patient, 500)]\<rparr>)) \<and>
   (showStaffIframe w \<longrightarrow> toggleStaffIframe w = Returns (w\<lparr>showStaffIframe := False\<rparr>)) \<and>
   (\<not> showStaffIframe w \<and> getToken w = Inr tok \<longrightarrow>
      toggleStaffIframe w =
        Returns (w\<lparr>showStaffIframe := True,
                   patientIframeUrl := Some (composed_url (patientUrl w) tok),
                   staffIframeUrl := Some (composed_url (staffUrl w) tok),
                   timers := timers w @ [(SendToken Staff, 500)]\<rparr>)) \<and>
   run_callback (SendToken type) w = sendTokenToIframe type w"
  using togglePatientIframe_hide[of w] togglePatientIframe_show[of w tok]
    toggleStaffIframe_hide[of w] toggleStaffIframe_show[of w tok] run_callback_sends[of type w]
  by blast

text \<open>So it is on the page after \<open>setToken("a b")\<close>.\<close>

lemma toggle_after_login:
  "\<not> showPatientIframe logged_in_page \<and> getToken logged_in_page = Inr (Some ''a b'') \<and>
   togglePatientIframe logged_in_page =
     Returns (logged_in_page\<lparr>showPatientIframe := True,
                patientIframeUrl := Some (composed_url (patientUrl logged_in_page) (Some ''a b'')),
                staffIframeUrl := Some (composed_url (staffUrl logged_in_page) (Some ''a b'')),
                timers := timers logged_in_page @ [(SendToken Patient, 500)]\<rparr>) \<and>
   showPatientIframe (logged_in_page\<lparr>showPatientIframe := True\<rparr>) \<and>
   togglePatientIframe (logged_in_page\<lparr>showPatientIframe := True\<rparr>) = Returns logged_in_page"
proof -
  have "setToken ''a b'' (fresh_page Guarded) = setToken_unguarded ''a b'' (fresh_page Guarded)"
    using service_in_browser(1)[OF fresh_page_browser[where svc = Guarded and field = "[]"],
            where t = "''a b''"]
    by (simp only: fresh_page_field)
  then have hidden: "\<not> showPatientIframe logged_in_page"
    by (simp add: logged_in_page_def setToken_unguarded_keeps fresh_page_def)
  have shown: "showPatientIframe (logged_in_page\<lparr>showPatientIframe := True\<rparr>)" by simp
  from togglePatientIframe_show[OF hidden logged_in_token]
  have "togglePatientIframe logged_in_page =
     Returns (logged_in_page\<lparr>showPatientIframe := True,
                patientIframeUrl := Some (composed_url (patientUrl logged_in_page) (Some ''a b'')),
                staffIframeUrl := Some (composed_url (staffUrl logged_in_page) (Some ''a b'')),
                timers := timers logged_in_page @ [(SendToken Patient, 500)]\<rparr>)" .
  moreover from togglePatientIframe_hide[OF shown]
  have "togglePatientIframe (logged_in_page\<lparr>showPatientIframe := True\<rparr>)
          = Returns (logged_in_page\<lparr>showPatientIframe := True, showPatientIframe := False\<rparr>)" .
  moreover have "logged_in_page\<lparr>showPatientIframe := True, showPatientIframe := False\<rparr> = logged_in_page"
    using hidden by simp
  ultimately show ?thesis
    using hidden logged_in_token shown by simp
qed

section \<open>Login\<close>

lemma onLogin_empty: "token w = [] \<Longrightarrow> onLogin w = Returns w"
  by (simp add: onLogin_def)

text \<open>With a non-empty field, in a browser, and with a token store that can be read
  after the write, \<open>onLogin\<close> stores the token, acknowledges, recomputes both
  addresses from what the store gives and clears the field; the flags stay as they
  are.\<close>

lemma onLogin_returns:
  assumes "token w \<noteq> []" and "setToken (token w) w = Returns w1" and "document w1 \<noteq> None"
    and "getToken w1 = Inr tok"
  shows "onLogin w =
           Returns (w1\<lparr>alerts := alerts w1 @ [''Token set successfully!''],
                       patientIframeUrl := Some (composed_url (patientUrl w1) tok),
                       staffIframeUrl := Some (composed_url (staffUrl w1) tok),
                       token := []\<rparr>)"
proof -
  let ?w2 = "w1\<lparr>alerts := alerts w1 @ [''Token set successfully!'']\<rparr>"
  have "getToken ?w2 = getToken w1"
    by (rule getToken_depends) simp_all
  then have "getToken ?w2 = Inr tok"
    by (simp only: assms(4))
  from updateIframeUrls_composed[OF this] assms(1,2,3) show ?thesis
    by (auto simp add: onLogin_def alert_def)
qed

lemma onLogin_raises:
  assumes "token w \<noteq> []" and "setToken (token w) w = Returns w1" and "document w1 \<noteq> None"
    and "getToken w1 = Inl e"
  shows "onLogin w = Throws e (w1\<lparr>alerts := alerts w1 @ [''Token set successfully!'']\<rparr>)"
proof -
  let ?w2 = "w1\<lparr>alerts := alerts w1 @ [''Token set successfully!'']\<rparr>"
  have "getToken ?w2 = getToken w1"
    by (rule getToken_depends) simp_all
  then have "getToken ?w2 = Inl e"
    by (simp only: assms(4))
  from updateIframeUrls_raises[OF this] assms(1,2,3) show ?thesis
    by (auto simp add: onLogin_def alert_def)
qed

text \<open>Where there is no browsing context \<open>alert\<close> does not resolve.\<close>

lemma onLogin_without_window:
  assumes "token w \<noteq> []" and "setToken (token w) w = Returns w1" and "document w1 = None"
  shows "onLogin w = Throws ReferenceError w1"
  using assms by (simp add: onLogin_def alert_def)

lemma setToken_unguarded_document:
  "document w \<noteq> None \<Longrightarrow> document (world_of (setToken_unguarded t w)) \<noteq> None"
  by (auto simp: setToken_unguarded_def assign_document_cookie_def Let_def)

lemma login_stores:
  "setToken (token ((fresh_page Guarded)\<lparr>token := field\<rparr>)) ((fresh_page Guarded)\<lparr>token := field\<rparr>)
     = Returns (world_of (setToken_unguarded field ((fresh_page Guarded)\<lparr>token := field\<rparr>)))"
proof -
  let ?w = "(fresh_page Guarded)\<lparr>token := field\<rparr>"
  have "setToken field ?w = setToken_unguarded field ?w"
    by (rule service_in_browser) (rule fresh_page_browser)
  moreover have "setToken_unguarded field ?w = Returns (world_of (setToken_unguarded field ?w))"
    by (rule setToken_unguarded_returns) (rule fresh_page_document)
  ultimately show ?thesis by simp
qed

text \<open>The login with \<open>%\<close>, step by step: the cookie is stored, the acknowledgment is
  shown, and reading the token back raises.\<close>

lemma percent_login_throws:
  "onLogin percent_login =
     Throws URIError
       ((world_of (setToken_unguarded ''%'' percent_login))
          \<lparr>alerts := alerts (world_of (setToken_unguarded ''%'' percent_login))
                      @ [''Token set successfully!'']\<rparr>)"
proof -
  let ?w1 = "world_of (setToken_unguarded ''%'' percent_login)"
  have field: "token percent_login = ''%''"
    by (simp add: percent_login_def)
  have stored: "setToken (token percent_login) percent_login = Returns ?w1"
    using login_stores[of "''%''"] by (simp add: percent_login_def)
  have same: "setToken ''%'' percent_login = setToken_unguarded ''%'' percent_login"
    unfolding percent_login_def by (rule service_in_browser) (rule fresh_page_browser)
  have unreadable: "getToken ?w1 = Inl URIError"
    using getToken_after_setToken[where t = "''%''" and svc = Guarded and field = "''%''"]
      percent_unreadable[where svc = Guarded and field = "''%''"] same
    by (simp add: percent_login_def)
  have page: "document ?w1 \<noteq> None"
    unfolding percent_login_def by (rule setToken_unguarded_document) (rule fresh_page_document)
  have ne: "token percent_login \<noteq> []"
    by (simp add: field)
  show ?thesis
    by (rule onLogin_raises[OF ne stored page unreadable])
qed

lemma unreadable_page_store: "getToken unreadable_page = Inl URIError"
proof -
  let ?w1 = "world_of (setToken_unguarded ''%'' percent_login)"
  have same: "setToken ''%'' percent_login = setToken_unguarded ''%'' percent_login"
    unfolding percent_login_def by (rule service_in_browser) (rule fresh_page_browser)
  have unreadable: "getToken ?w1 = Inl URIError"
    using getToken_after_setToken[where t = "''%''" and svc = Guarded and field = "''%''"]
      percent_unreadable[where svc = Guarded and field = "''%''"] same
    by (simp add: percent_login_def)
  have "getToken (?w1\<lparr>alerts := alerts ?w1 @ [''Token set successfully!'']\<rparr>) = getToken ?w1"
    by (rule getToken_depends) simp_all
  with unreadable show ?thesis
    unfolding unreadable_page_def percent_login_throws by simp
qed

lemma unreadable_page_fields:
  "token unreadable_page = ''%''"
  "alerts unreadable_page = [''Token set successfully!'']"
  "timers unreadable_page = []"
  "\<not> showPatientIframe unreadable_page"
  "\<not> showStaffIframe unreadable_page"
  "patientIframeUrl unreadable_page = None"
  "staffIframeUrl unreadable_page = None"
  unfolding unreadable_page_def percent_login_throws
  by (simp_all add: setToken_unguarded_keeps) (simp_all add: percent_login_def fresh_page_def)

text \<open>
  C7. Claimed: with a non-empty token in the field, \<open>onLogin\<close> stores it, recomputes
  both composed addresses from it and clears the field. With \<open>%\<close> in the field of a
  fresh page the token is stored and acknowledged, and then reading it back raises
  URIError: \<open>onLogin\<close> throws, the field still holds \<open>%\<close> and no address has been
  computed. With \<open>a;b\<close> in the field \<open>onLogin\<close> returns, and the addresses carry
  \<open>token=a\<close>.
\<close>

theorem login_with_unreadable_token:
  "token percent_login = ''%'' \<and>
   \<not> returned (onLogin percent_login) \<and>
   token (world_of (onLogin percent_login)) = ''%'' \<and>
   patientIframeUrl (world_of (onLogin percent_login)) = None \<and>
   staffIframeUrl (world_of (onLogin percent_login)) = None \<and>
   alerts (world_of (onLogin percent_login)) = [''Token set successfully!''] \<and>
   getToken (world_of (onLogin percent_login)) = Inl URIError \<and>
   token semicolon_login = ''a;b'' \<and>
   returned (onLogin semicolon_login) \<and>
   patientIframeUrl (world_of (onLogin semicolon_login))
     = Some (SafeResourceUrl (patientUrl semicolon_login @ ''?token=a''))"
proof -
  let ?w2 = "world_of (setToken_unguarded ''a;b'' semicolon_login)"
  have field1: "token percent_login = ''%''" and field2: "token semicolon_login = ''a;b''"
    by (simp_all add: percent_login_def semicolon_login_def)
  have thrown: "\<not> returned (onLogin percent_login)"
    unfolding percent_login_throws by simp
  have stored2: "setToken (token semicolon_login) semicolon_login = Returns ?w2"
    using login_stores[of "''a;b''"] by (simp add: semicolon_login_def)
  have same2: "setToken ''a;b'' semicolon_login = setToken_unguarded ''a;b'' semicolon_login"
    unfolding semicolon_login_def by (rule service_in_browser) (rule fresh_page_browser)
  have cut: "getToken ?w2 = Inr (Some ''a'')"
    using getToken_after_setToken[where t = "''a;b''" and svc = Guarded and field = "''a;b''"]
      semicolon_cut[where svc = Guarded and field = "''a;b''"] same2
    by (simp add: semicolon_login_def)
  have page2: "document ?w2 \<noteq> None"
    unfolding semicolon_login_def by (rule setToken_unguarded_document) (rule fresh_page_document)
  have ne2: "token semicolon_login \<noteq> []"
    by (simp add: field2)
  note run2 = onLogin_returns[OF ne2 stored2 page2 cut]
  have second:
    "returned (onLogin semicolon_login) \<and>
     patientIframeUrl (world_of (onLogin semicolon_login))
       = Some (SafeResourceUrl (patientUrl semicolon_login @ ''?token=a''))"
  proof -
    have "encodeURIComponent ''a'' = ''a''" by code_simp
    then show ?thesis
      unfolding run2 by (simp add: setToken_unguarded_keeps composed_url_def)
  qed
  from field1 field2 thrown second
    unreadable_page_fields[unfolded unreadable_page_def] unreadable_page_store[unfolded unreadable_page_def]
  show ?thesis by (intro conjI) blast+
qed

section \<open>Toggling when the token cannot be read\<close>

text \<open>
  C6. Claimed: a toggle flips the frame's flag; from hidden to shown it recomputes the
  composed address from the stored token and schedules exactly one message sender
  after the settle delay; from shown to hidden it changes the flag only. On the page a
  login with \<open>%\<close> leaves behind (cookie \<open>authToken=%\<close>, both frames hidden) each
  toggle flips its flag and then throws URIError from \<open>getToken\<close>: no address is
  computed and no timer is scheduled.
\<close>

theorem toggle_with_unreadable_store:
  "\<not> showPatientIframe unreadable_page \<and>
   \<not> returned (togglePatientIframe unreadable_page) \<and>
   showPatientIframe (world_of (togglePatientIframe unreadable_page)) \<and>
   patientIframeUrl (world_of (togglePatientIframe unreadable_page)) = None \<and>
   timers (world_of (togglePatientIframe unreadable_page)) = [] \<and>
   \<not> showStaffIframe unreadable_page \<and>
   \<not> returned (toggleStaffIframe unreadable_page) \<and>
   showStaffIframe (world_of (toggleStaffIframe unreadable_page)) \<and>
   staffIframeUrl (world_of (toggleStaffIframe unreadable_page)) = None \<and>
   timers (world_of (toggleStaffIframe unreadable_page)) = []"
proof -
  note patient = togglePatientIframe_unreadable[OF unreadable_page_fields(4) unreadable_page_store]
  note staff = toggleStaffIframe_unreadable[OF unreadable_page_fields(5) unreadable_page_store]
  show ?thesis
    unfolding patient staff by (simp add: unreadable_page_fields)
qed

end
